theory Spec2Isabelle
  imports Main
begin

section \<open>JavaScript values as the client code sees them\<close>

text \<open>
  The client (\<^verbatim>\<open>frontend/react-admin/src\<close>) handles values that come out of
  \<^verbatim>\<open>JSON.parse\<close> and \<^verbatim>\<open>response.json()\<close>, plus \<^verbatim>\<open>undefined\<close> for a missing
  property. Strings are lists of 8-bit code units, which is what \<^verbatim>\<open>atob\<close> produces;
  numbers are the integers. \<open>JNative\<close> stands for a built-in method found on a
  prototype (\<^verbatim>\<open>"abc".sub\<close> is \<^verbatim>\<open>String.prototype.sub\<close>).
\<close>

datatype jsval =
    JUndefined
  | JNull
  | JBool bool
  | JNum int
  | JStr string
  | JArr "jsval list"
  | JObj "(string \<times> jsval) list"
  | JNative string

text \<open>What a \<^verbatim>\<open>throw\<close> or a rejected promise carries. \<open>FetchError\<close> is the
  \<^verbatim>\<open>TypeError\<close> with which \<^verbatim>\<open>fetch\<close> rejects when no response arrives.\<close>

datatype exn =
    Error string
  | TypeError
  | SyntaxError
  | URIError
  | InvalidCharacterError
  | FetchError

fun truthy :: "jsval \<Rightarrow> bool" where
  "truthy JUndefined = False"
| "truthy JNull = False"
| "truthy (JBool b) = b"
| "truthy (JNum n) = (n \<noteq> 0)"
| "truthy (JStr s) = (s \<noteq> [])"
| "truthy (JArr xs) = True"
| "truthy (JObj kvs) = True"
| "truthy (JNative f) = True"

fun nullish :: "jsval \<Rightarrow> bool" where
  "nullish JUndefined = True"
| "nullish JNull = True"
| "nullish v = False"

text \<open>\<^verbatim>\<open>a || b\<close>\<close>

definition js_or :: "jsval \<Rightarrow> jsval \<Rightarrow> jsval" where
  "js_or a b = (if truthy a then a else b)"

text \<open>
  \<open>field v k\<close> is \<^verbatim>\<open>v.k\<close> for a \<open>v\<close> that is neither \<^verbatim>\<open>null\<close> nor
  \<^verbatim>\<open>undefined\<close>, for the property names this program reads (none of them is an
  array index, \<^verbatim>\<open>length\<close> or a member of \<^verbatim>\<open>Object.prototype\<close>). The last
  binding of a key is the one an object holds.
\<close>

fun field :: "jsval \<Rightarrow> string \<Rightarrow> jsval" where
  "field (JObj kvs) k = (case map_of (rev kvs) k of Some v \<Rightarrow> v | None \<Rightarrow> JUndefined)"
| "field (JStr s) k = (if k = ''sub'' then JNative ''sub'' else JUndefined)"
| "field (JNative f) k = (if k = ''name'' then JStr f else JUndefined)"
| "field v k = JUndefined"

text \<open>\<^verbatim>\<open>v.k\<close>: a \<^verbatim>\<open>TypeError\<close> on \<^verbatim>\<open>null\<close> and \<^verbatim>\<open>undefined\<close>.\<close>

definition get_prop :: "jsval \<Rightarrow> string \<Rightarrow> exn + jsval" where
  "get_prop v k = (if nullish v then Inl TypeError else Inr (field v k))"

text \<open>\<^verbatim>\<open>v?.k\<close>\<close>

definition opt_prop :: "jsval \<Rightarrow> string \<Rightarrow> jsval" where
  "opt_prop v k = (if nullish v then JUndefined else field v k)"

subsection \<open>Conversion to string\<close>

fun show_nat :: "nat \<Rightarrow> string" where
  "show_nat n =
     (if n < 10 then [''0123456789'' ! n]
      else show_nat (n div 10) @ [''0123456789'' ! (n mod 10)])"

declare show_nat.simps [simp del]

definition show_int :: "int \<Rightarrow> string" where
  "show_int i = (if i < 0 then CHR ''-'' # show_nat (nat (- i)) else show_nat (nat i))"

fun join :: "string \<Rightarrow> string list \<Rightarrow> string" where
  "join sep [] = []"
| "join sep [x] = x"
| "join sep (x # y # ys) = x @ sep @ join sep (y # ys)"

text \<open>\<^verbatim>\<open>String(v)\<close>, which is also what a template literal and
  \<^verbatim>\<open>localStorage.setItem\<close> apply to a value.\<close>

fun to_string :: "jsval \<Rightarrow> string"
  and elem_strings :: "jsval list \<Rightarrow> string list" where
  "to_string JUndefined = ''undefined''"
| "to_string JNull = ''null''"
| "to_string (JBool b) = (if b then ''true'' else ''false'')"
| "to_string (JNum n) = show_int n"
| "to_string (JStr s) = s"
| "to_string (JArr xs) = join '','' (elem_strings xs)"
| "to_string (JObj kvs) = ''[object Object]''"
| "to_string (JNative f) = ''function '' @ f @ ''() { [native code] }''"
| "elem_strings [] = []"
| "elem_strings (x # xs) = (if nullish x then [] else to_string x) # elem_strings xs"

section \<open>The platform\<close>

text \<open>
  The built-in functions the client calls. They are a parameter of every definition
  below, so that what is proved holds whatever they return; \<open>None\<close> is the built-in
  throwing (\<^verbatim>\<open>InvalidCharacterError\<close> for \<^verbatim>\<open>atob\<close>, \<^verbatim>\<open>URIError\<close> for
  \<^verbatim>\<open>decodeURIComponent\<close>, \<^verbatim>\<open>SyntaxError\<close> for \<^verbatim>\<open>JSON.parse\<close>).
\<close>

record platform =
  atob :: "string \<Rightarrow> string option"
  btoa :: "string \<Rightarrow> string"
  decodeURIComponent :: "string \<Rightarrow> string option"
  encodeURIComponent :: "string \<Rightarrow> string"
  JSON_parse :: "string \<Rightarrow> jsval option"
  JSON_stringify :: "jsval \<Rightarrow> string"

section \<open>Credential codec: \<^verbatim>\<open>decodeTokenPayload\<close> (auth.jsx)\<close>

text \<open>\<^verbatim>\<open>s.split('.')\<close>\<close>

fun split_on :: "char \<Rightarrow> string \<Rightarrow> string list" where
  "split_on d [] = [[]]"
| "split_on d (c # cs) =
     (if c = d then [] # split_on d cs
      else (case split_on d cs of [] \<Rightarrow> [[c]] | x # xs \<Rightarrow> (c # x) # xs))"

text \<open>\<^verbatim>\<open>xs[i]\<close>: \<^verbatim>\<open>undefined\<close> (here \<open>None\<close>) out of range.\<close>

definition index :: "'a list \<Rightarrow> nat \<Rightarrow> 'a option" where
  "index xs i = (if i < length xs then Some (xs ! i) else None)"

text \<open>\<^verbatim>\<open>s.replace(/-/g, '+').replace(/_/g, '/')\<close>\<close>

definition replace_all :: "char \<Rightarrow> char \<Rightarrow> string \<Rightarrow> string" where
  "replace_all a b s = map (\<lambda>c. if c = a then b else c) s"

definition base64url_to_base64 :: "string \<Rightarrow> string" where
  "base64url_to_base64 s = replace_all CHR ''_'' CHR ''/'' (replace_all CHR ''-'' CHR ''+'' s)"

text \<open>\<^verbatim>\<open>n.toString(16)\<close>\<close>

fun to_hex :: "nat \<Rightarrow> string" where
  "to_hex n =
     (if n < 16 then [''0123456789abcdef'' ! n]
      else to_hex (n div 16) @ [''0123456789abcdef'' ! (n mod 16)])"

declare to_hex.simps [simp del]

text \<open>\<^verbatim>\<open>s.slice(-2)\<close>\<close>

definition slice_last2 :: "string \<Rightarrow> string" where
  "slice_last2 s = drop (length s - 2) s"

text \<open>\<^verbatim>\<open>c => '%' + ('00' + c.charCodeAt(0).toString(16)).slice(-2)\<close>, mapped over the
  characters and joined.\<close>

definition percent_char :: "char \<Rightarrow> string" where
  "percent_char c = CHR ''%'' # slice_last2 (''00'' @ to_hex (of_char c))"

definition percent_encode :: "string \<Rightarrow> string" where
  "percent_encode s = concat (map percent_char s)"

text \<open>The first statements of both decoders: from the token to the parsed payload.
  Every step that can throw is a branch.\<close>

definition token_payload :: "platform \<Rightarrow> jsval \<Rightarrow> exn + jsval" where
  "token_payload pf token =
     (case token of
        JStr t \<Rightarrow>
          (case index (split_on CHR ''.'' t) 1 of
             None \<Rightarrow> Inl TypeError
           | Some base64Url \<Rightarrow>
               (case atob pf (base64url_to_base64 base64Url) of
                  None \<Rightarrow> Inl InvalidCharacterError
                | Some bytes \<Rightarrow>
                    (case decodeURIComponent pf (percent_encode bytes) of
                       None \<Rightarrow> Inl URIError
                     | Some jsonPayload \<Rightarrow>
                         (case JSON_parse pf jsonPayload of
                            None \<Rightarrow> Inl SyntaxError
                          | Some payload \<Rightarrow> Inr payload))))
      | _ \<Rightarrow> Inl TypeError)"

text \<open>The object literal returned inside \<^verbatim>\<open>AuthProvider\<close> (auth.jsx, lines 98-106).\<close>

definition provider_user :: "jsval \<Rightarrow> exn + jsval" where
  "provider_user payload =
     (if nullish payload then Inl TypeError
      else Inr (JObj
        [(''id'', field payload ''sub''),
         (''email'', js_or (field payload ''email'') (field payload ''preferred_username'')),
         (''name'', js_or (field payload ''name'') (field payload ''preferred_username'')),
         (''username'', field payload ''preferred_username''),
         (''roles'', js_or (opt_prop (field payload ''realm_access'') ''roles'') (JArr [])),
         (''tenant'', js_or (field payload ''tenant'') (JStr '' ''))]))"

text \<open>The object literal returned by the module-level decoder (auth.jsx, lines 548-557).\<close>

definition module_user :: "jsval \<Rightarrow> exn + jsval" where
  "module_user payload =
     (if nullish payload then Inl TypeError
      else Inr (JObj
        [(''id'', field payload ''sub''),
         (''email'', js_or (field payload ''email'') (field payload ''preferred_username'')),
         (''name'', js_or (field payload ''name'') (field payload ''preferred_username'')),
         (''username'', field payload ''preferred_username''),
         (''roles'', js_or (opt_prop (field payload ''realm_access'') ''roles'') (JArr [])),
         (''tenant_slug'', field payload ''tenant''),
         (''tenant_name'', field payload ''tenant_name'')]))"

text \<open>The \<^verbatim>\<open>try\<close> block of each decoder, and the decoder with its \<^verbatim>\<open>catch\<close>, which
  returns \<^verbatim>\<open>null\<close>.\<close>

definition provider_decode_try :: "platform \<Rightarrow> jsval \<Rightarrow> exn + jsval" where
  "provider_decode_try pf token =
     (case token_payload pf token of Inl e \<Rightarrow> Inl e | Inr payload \<Rightarrow> provider_user payload)"

definition decodeTokenPayload_provider :: "platform \<Rightarrow> jsval \<Rightarrow> jsval" where
  "decodeTokenPayload_provider pf token =
     (case provider_decode_try pf token of Inl e \<Rightarrow> JNull | Inr u \<Rightarrow> u)"

definition module_decode_try :: "platform \<Rightarrow> jsval \<Rightarrow> exn + jsval" where
  "module_decode_try pf token =
     (case token_payload pf token of Inl e \<Rightarrow> Inl e | Inr payload \<Rightarrow> module_user payload)"

definition decodeTokenPayload :: "platform \<Rightarrow> jsval \<Rightarrow> jsval" where
  "decodeTokenPayload pf token =
     (case module_decode_try pf token of Inl e \<Rightarrow> JNull | Inr u \<Rightarrow> u)"

section \<open>The built-ins on ASCII text\<close>

text \<open>
  Executable versions of the built-ins, used where a definition is evaluated at a
  concrete input. They follow the standards on ASCII input: \<open>ascii_atob\<close> and
  \<open>ascii_btoa\<close> are base64 as \<^verbatim>\<open>atob\<close> and \<^verbatim>\<open>btoa\<close> define it,
  \<open>ascii_JSON_parse\<close> reads JSON whose numbers are integer numerals and whose
  \<^verbatim>\<open>\u\<close> escapes stay below 256, \<open>ascii_decodeURIComponent\<close> decodes
  \<^verbatim>\<open>%XX\<close> sequences up to U+00FF. Outside that range they answer \<open>None\<close>, and are
  not used there.
\<close>

definition is_ascii_ws :: "char \<Rightarrow> bool" where
  "is_ascii_ws c = (of_char c \<in> {9, 10, 12, 13, 32 :: nat})"

definition b64_value :: "char \<Rightarrow> nat option" where
  "b64_value c =
     (let n = of_char c :: nat in
      if 65 \<le> n \<and> n \<le> 90 then Some (n - 65)
      else if 97 \<le> n \<and> n \<le> 122 then Some (n - 71)
      else if 48 \<le> n \<and> n \<le> 57 then Some (n + 4)
      else if n = 43 then Some 62
      else if n = 47 then Some 63
      else None)"

definition b64_char :: "nat \<Rightarrow> char" where
  "b64_char n =
     (if n < 26 then char_of (n + 65)
      else if n < 52 then char_of (n + 71)
      else if n < 62 then char_of (n - 4)
      else if n = 62 then CHR ''+''
      else CHR ''/'')"

definition strip_padding :: "string \<Rightarrow> string" where
  "strip_padding s =
     (if length s mod 4 = 0 then
        (case rev s of
           a # b # r \<Rightarrow>
             if a = CHR ''='' \<and> b = CHR ''='' then rev r
             else if a = CHR ''='' then rev (b # r)
             else s
         | _ \<Rightarrow> s)
      else s)"

fun sextets_to_bytes :: "nat list \<Rightarrow> nat list" where
  "sextets_to_bytes (a # b # c # d # r) =
     (a * 4 + b div 16) # ((b mod 16) * 16 + c div 4) # ((c mod 4) * 64 + d) # sextets_to_bytes r"
| "sextets_to_bytes [a, b, c] = [a * 4 + b div 16, (b mod 16) * 16 + c div 4]"
| "sextets_to_bytes [a, b] = [a * 4 + b div 16]"
| "sextets_to_bytes r = []"

definition ascii_atob :: "string \<Rightarrow> string option" where
  "ascii_atob s =
     (let d = strip_padding (filter (\<lambda>c. \<not> is_ascii_ws c) s) in
      if length d mod 4 = 1 then None
      else map_option (\<lambda>vs. map char_of (sextets_to_bytes vs)) (those (map b64_value d)))"

fun bytes_to_base64 :: "nat list \<Rightarrow> string" where
  "bytes_to_base64 [] = []"
| "bytes_to_base64 [a] = [b64_char (a div 4), b64_char ((a mod 4) * 16), CHR ''='', CHR ''='']"
| "bytes_to_base64 [a, b] =
     [b64_char (a div 4), b64_char ((a mod 4) * 16 + b div 16), b64_char ((b mod 16) * 4), CHR ''='']"
| "bytes_to_base64 (a # b # c # r) =
     b64_char (a div 4) # b64_char ((a mod 4) * 16 + b div 16)
       # b64_char ((b mod 16) * 4 + c div 64) # b64_char (c mod 64) # bytes_to_base64 r"

definition ascii_btoa :: "string \<Rightarrow> string" where
  "ascii_btoa s = bytes_to_base64 (map of_char s)"

subsection \<open>Percent encoding\<close>

definition hex_value :: "char \<Rightarrow> nat option" where
  "hex_value c =
     (let n = of_char c :: nat in
      if 48 \<le> n \<and> n \<le> 57 then Some (n - 48)
      else if 65 \<le> n \<and> n \<le> 70 then Some (n - 55)
      else if 97 \<le> n \<and> n \<le> 102 then Some (n - 87)
      else None)"

text \<open>The bytes of a string in which every \<^verbatim>\<open>%\<close> starts an escape.\<close>

fun percent_bytes :: "string \<Rightarrow> nat list option" where
  "percent_bytes [] = Some []"
| "percent_bytes (c # cs) =
     (if c = CHR ''%'' then
        (case cs of
           a # b # r \<Rightarrow>
             (case (hex_value a, hex_value b) of
                (Some h, Some l) \<Rightarrow> map_option ((#) (16 * h + l)) (percent_bytes r)
              | _ \<Rightarrow> None)
         | _ \<Rightarrow> None)
      else if of_char c < (128 :: nat) then map_option ((#) (of_char c)) (percent_bytes cs)
      else None)"

text \<open>UTF-8 to code units, for code points up to U+00FF.\<close>

fun utf8_latin1 :: "nat list \<Rightarrow> string option" where
  "utf8_latin1 [] = Some []"
| "utf8_latin1 (b # bs) =
     (if b < 128 then map_option ((#) (char_of b)) (utf8_latin1 bs)
      else if b = 194 \<or> b = 195 then
        (case bs of
           c # r \<Rightarrow>
             if 128 \<le> c \<and> c < 192
             then map_option ((#) (char_of ((b - 192) * 64 + (c - 128)))) (utf8_latin1 r)
             else None
         | [] \<Rightarrow> None)
      else None)"

definition ascii_decodeURIComponent :: "string \<Rightarrow> string option" where
  "ascii_decodeURIComponent s =
     (case percent_bytes s of None \<Rightarrow> None | Some bs \<Rightarrow> utf8_latin1 bs)"

definition upper_hex2 :: "nat \<Rightarrow> string" where
  "upper_hex2 n = [''0123456789ABCDEF'' ! (n div 16), ''0123456789ABCDEF'' ! (n mod 16)]"

definition uri_unreserved :: "char \<Rightarrow> bool" where
  "uri_unreserved c =
     (let n = of_char c :: nat in
      (65 \<le> n \<and> n \<le> 90) \<or> (97 \<le> n \<and> n \<le> 122) \<or> (48 \<le> n \<and> n \<le> 57)
      \<or> c \<in> set ''-_.!~*'' \<or> n = 39 \<or> c \<in> set ''()'')"

definition uri_escape :: "char \<Rightarrow> string" where
  "uri_escape c =
     (let n = of_char c :: nat in
      if uri_unreserved c then [c]
      else if n < 128 then CHR ''%'' # upper_hex2 n
      else CHR ''%'' # upper_hex2 (192 + n div 64) @ CHR ''%'' # upper_hex2 (128 + n mod 64))"

definition ascii_encodeURIComponent :: "string \<Rightarrow> string" where
  "ascii_encodeURIComponent s = concat (map uri_escape s)"

subsection \<open>JSON text\<close>

definition json_quote_char :: "char \<Rightarrow> string" where
  "json_quote_char c =
     (let n = of_char c :: nat in
      if n = 34 then [CHR 0x5C, CHR 0x22]
      else if n = 92 then [CHR 0x5C, CHR 0x5C]
      else if n = 8 then [CHR 0x5C, CHR ''b'']
      else if n = 9 then [CHR 0x5C, CHR ''t'']
      else if n = 10 then [CHR 0x5C, CHR ''n'']
      else if n = 12 then [CHR 0x5C, CHR ''f'']
      else if n = 13 then [CHR 0x5C, CHR ''r'']
      else if n < 32 then
        [CHR 0x5C, CHR ''u'', CHR ''0'', CHR ''0'',
         ''0123456789abcdef'' ! (n div 16), ''0123456789abcdef'' ! (n mod 16)]
      else [c])"

definition json_quote :: "string \<Rightarrow> string" where
  "json_quote s = CHR 0x22 # concat (map json_quote_char s) @ [CHR 0x22]"

text \<open>
  \<^verbatim>\<open>JSON.stringify(v)\<close> converted to a string; \<^verbatim>\<open>undefined\<close> and functions are
  left out of objects and written \<^verbatim>\<open>null\<close> in arrays. Members are written in the
  order of the list.
\<close>

fun omitted :: "jsval \<Rightarrow> bool" where
  "omitted JUndefined = True"
| "omitted (JNative f) = True"
| "omitted v = False"

fun ascii_JSON_stringify :: "jsval \<Rightarrow> string"
  and stringify_elems :: "jsval list \<Rightarrow> string list"
  and stringify_members :: "(string \<times> jsval) list \<Rightarrow> string list" where
  "ascii_JSON_stringify JUndefined = ''undefined''"
| "ascii_JSON_stringify (JNative f) = ''undefined''"
| "ascii_JSON_stringify JNull = ''null''"
| "ascii_JSON_stringify (JBool b) = (if b then ''true'' else ''false'')"
| "ascii_JSON_stringify (JNum n) = show_int n"
| "ascii_JSON_stringify (JStr s) = json_quote s"
| "ascii_JSON_stringify (JArr xs) = ''['' @ join '','' (stringify_elems xs) @ '']''"
| "ascii_JSON_stringify (JObj kvs) = ''{'' @ join '','' (stringify_members kvs) @ ''}''"
| "stringify_elems [] = []"
| "stringify_elems (x # xs) =
     (if omitted x then ''null'' else ascii_JSON_stringify x) # stringify_elems xs"
| "stringify_members [] = []"
| "stringify_members ((k, v) # kvs) =
     (if omitted v then stringify_members kvs
      else (json_quote k @ '':'' @ ascii_JSON_stringify v) # stringify_members kvs)"

definition is_json_ws :: "char \<Rightarrow> bool" where
  "is_json_ws c = (of_char c \<in> {9, 10, 13, 32 :: nat})"

definition skip_ws :: "string \<Rightarrow> string" where
  "skip_ws s = dropWhile is_json_ws s"

definition json_unescape :: "char \<Rightarrow> char option" where
  "json_unescape e =
     (if e = CHR 0x22 \<or> e = CHR 0x5C \<or> e = CHR ''/'' then Some e
      else if e = CHR ''b'' then Some (CHR 0x08)
      else if e = CHR ''f'' then Some (CHR 0x0C)
      else if e = CHR ''n'' then Some (CHR 0x0A)
      else if e = CHR ''r'' then Some (CHR 0x0D)
      else if e = CHR ''t'' then Some (CHR 0x09)
      else None)"

text \<open>The text after an opening quote: the string's characters and what follows
  the closing quote.\<close>

fun json_string_body :: "string \<Rightarrow> (string \<times> string) option" where
  "json_string_body [] = None"
| "json_string_body (c # cs) =
     (if c = CHR 0x22 then Some ([], cs)
      else if c = CHR 0x5C then
        (case cs of
           [] \<Rightarrow> None
         | e # r \<Rightarrow>
             if e = CHR ''u'' then
               (case r of
                  h1 # h2 # h3 # h4 # r' \<Rightarrow>
                    (case (hex_value h1, hex_value h2, hex_value h3, hex_value h4) of
                       (Some a, Some b, Some x, Some y) \<Rightarrow>
                         if a = 0 \<and> b = 0
                         then map_option (\<lambda>(s, t). (char_of (16 * x + y) # s, t))
                                (json_string_body r')
                         else None
                     | _ \<Rightarrow> None)
                | _ \<Rightarrow> None)
             else
               (case json_unescape e of
                  None \<Rightarrow> None
                | Some x \<Rightarrow> map_option (\<lambda>(s, t). (x # s, t)) (json_string_body r)))
      else if of_char c < (32 :: nat) then None
      else map_option (\<lambda>(s, t). (c # s, t)) (json_string_body cs))"

definition is_digit :: "char \<Rightarrow> bool" where
  "is_digit c = (48 \<le> (of_char c :: nat) \<and> (of_char c :: nat) \<le> 57)"

definition digits_value :: "string \<Rightarrow> nat" where
  "digits_value ds = foldl (\<lambda>a c. 10 * a + (of_char c - 48)) 0 ds"

text \<open>An unsigned integer numeral: no leading zero, and no fraction or exponent
  behind it.\<close>

definition json_natural :: "string \<Rightarrow> (nat \<times> string) option" where
  "json_natural s =
     (let ds = takeWhile is_digit s; r = dropWhile is_digit s in
      if ds = [] \<or> (hd ds = CHR ''0'' \<and> length ds > 1) then None
      else if r \<noteq> [] \<and> hd r \<in> set ''.eE'' then None
      else Some (digits_value ds, r))"

definition json_number :: "string \<Rightarrow> (jsval \<times> string) option" where
  "json_number s =
     (case s of
        [] \<Rightarrow> None
      | c # r \<Rightarrow>
          if c = CHR ''-'' then map_option (\<lambda>(n, t). (JNum (- int n), t)) (json_natural r)
          else map_option (\<lambda>(n, t). (JNum (int n), t)) (json_natural s))"

fun json_value :: "nat \<Rightarrow> string \<Rightarrow> (jsval \<times> string) option"
  and json_elems :: "nat \<Rightarrow> string \<Rightarrow> (jsval list \<times> string) option"
  and json_members :: "nat \<Rightarrow> string \<Rightarrow> ((string \<times> jsval) list \<times> string) option" where
  "json_value 0 s = None"
| "json_value (Suc n) s =
     (case skip_ws s of
        [] \<Rightarrow> None
      | c # r \<Rightarrow>
          if c = CHR ''{'' then
            (case skip_ws r of
               [] \<Rightarrow> None
             | d # r' \<Rightarrow>
                 if d = CHR ''}'' then Some (JObj [], r')
                 else map_option (\<lambda>(kvs, t). (JObj kvs, t)) (json_members n (d # r')))
          else if c = CHR ''['' then
            (case skip_ws r of
               [] \<Rightarrow> None
             | d # r' \<Rightarrow>
                 if d = CHR '']'' then Some (JArr [], r')
                 else map_option (\<lambda>(vs, t). (JArr vs, t)) (json_elems n (d # r')))
          else if c = CHR 0x22 then map_option (\<lambda>(x, t). (JStr x, t)) (json_string_body r)
          else if take 4 (c # r) = ''true'' then Some (JBool True, drop 4 (c # r))
          else if take 5 (c # r) = ''false'' then Some (JBool False, drop 5 (c # r))
          else if take 4 (c # r) = ''null'' then Some (JNull, drop 4 (c # r))
          else json_number (c # r))"
| "json_elems 0 s = None"
| "json_elems (Suc n) s =
     (case json_value n s of
        None \<Rightarrow> None
      | Some (v, t) \<Rightarrow>
          (case skip_ws t of
             [] \<Rightarrow> None
           | c # r \<Rightarrow>
               if c = CHR '','' then map_option (\<lambda>(vs, u). (v # vs, u)) (json_elems n r)
               else if c = CHR '']'' then Some ([v], r)
               else None))"
| "json_members 0 s = None"
| "json_members (Suc n) s =
     (case skip_ws s of
        [] \<Rightarrow> None
      | q # r \<Rightarrow>
          if q \<noteq> CHR 0x22 then None
          else
            (case json_string_body r of
               None \<Rightarrow> None
             | Some (k, t) \<Rightarrow>
                 (case skip_ws t of
                    [] \<Rightarrow> None
                  | c # u \<Rightarrow>
                      if c \<noteq> CHR '':'' then None
                      else
                        (case json_value n u of
                           None \<Rightarrow> None
                         | Some (v, t') \<Rightarrow>
                             (case skip_ws t' of
                                [] \<Rightarrow> None
                              | c' # u' \<Rightarrow>
                                  if c' = CHR '','' then
                                    map_option (\<lambda>(kvs, z). ((k, v) # kvs, z)) (json_members n u')
                                  else if c' = CHR ''}'' then Some ([(k, v)], u')
                                  else None)))))"

text \<open>The recursion is bounded by twice the length of the text, which every descent
  stays within: each call either consumes a character or is followed by one that does.\<close>

definition ascii_JSON_parse :: "string \<Rightarrow> jsval option" where
  "ascii_JSON_parse s =
     (case json_value (2 * length s + 2) s of
        None \<Rightarrow> None
      | Some (v, r) \<Rightarrow> if skip_ws r = [] then Some v else None)"

definition ascii_platform :: platform where
  "ascii_platform =
     \<lparr> atob = ascii_atob,
       btoa = ascii_btoa,
       decodeURIComponent = ascii_decodeURIComponent,
       encodeURIComponent = ascii_encodeURIComponent,
       JSON_parse = ascii_JSON_parse,
       JSON_stringify = ascii_JSON_stringify \<rparr>"

section \<open>Session store, requests and the network\<close>

text \<open>
  \<^verbatim>\<open>localStorage\<close> maps keys to strings; \<^verbatim>\<open>getItem\<close> of a missing key is
  \<^verbatim>\<open>null\<close>, here \<open>None\<close>. The keys in use are \<^verbatim>\<open>access_token\<close>,
  \<^verbatim>\<open>refresh_token\<close>, \<^verbatim>\<open>current_tenant\<close> and \<^verbatim>\<open>user\<close>.
\<close>

datatype payload = NoBody | Text string | Form "(string \<times> string) list"

record request =
  url :: string
  http_method :: "string option"
  headers :: "(string \<times> string) list"
  body :: payload

text \<open>The \<^verbatim>\<open>options\<close> argument of the gateways.\<close>

record options =
  opt_method :: "string option"
  opt_headers :: "(string \<times> string) list"
  opt_body :: "string option"

text \<open>A response: its status and what \<^verbatim>\<open>response.json()\<close> resolves to, \<open>None\<close>
  when it rejects.\<close>

record response =
  status :: nat
  json_body :: "jsval option"

definition ok :: "response \<Rightarrow> bool" where
  "ok r = (200 \<le> status r \<and> status r \<le> 299)"

text \<open>The \<^verbatim>\<open>fetch\<close> call sites, to tell the requests of one run apart.\<close>

datatype site = Original | Refresh | Retry | Login | Logout | Profile | Callback

text \<open>
  The network answers a request knowing everything sent before it; \<open>None\<close> is a
  rejected \<^verbatim>\<open>fetch\<close>.
\<close>

type_synonym network = "(site \<times> request) list \<Rightarrow> request \<Rightarrow> response option"

record world =
  storage :: "string \<rightharpoonup> string"
  href :: "string option"
  sent :: "(site \<times> request) list"
  st_user :: jsval
  st_token :: jsval
  st_refreshToken :: jsval

definition fetch :: "network \<Rightarrow> site \<Rightarrow> request \<Rightarrow> world \<Rightarrow> response option \<times> world" where
  "fetch net s rq w = (net (sent w) rq, w\<lparr>sent := sent w @ [(s, rq)]\<rparr>)"

definition setItem :: "string \<Rightarrow> string \<Rightarrow> world \<Rightarrow> world" where
  "setItem k v w = w\<lparr>storage := (storage w)(k \<mapsto> v)\<rparr>"

definition removeItem :: "string \<Rightarrow> world \<Rightarrow> world" where
  "removeItem k w = w\<lparr>storage := (storage w)(k := None)\<rparr>"

text \<open>Truthiness of what \<^verbatim>\<open>getItem\<close> or \<^verbatim>\<open>searchParams.get\<close> returns.\<close>

fun present :: "string option \<Rightarrow> bool" where
  "present None = False"
| "present (Some s) = (s \<noteq> [])"

text \<open>\<^verbatim>\<open>headers[k] = v\<close> on an object literal.\<close>

fun set_header :: "string \<Rightarrow> string \<Rightarrow> (string \<times> string) list \<Rightarrow> (string \<times> string) list" where
  "set_header k v [] = [(k, v)]"
| "set_header k v (p # ps) = (if fst p = k then (k, v) # ps else p # set_header k v ps)"

text \<open>\<^verbatim>\<open>{ ...base, ...extra }\<close>\<close>

definition spread :: "(string \<times> string) list \<Rightarrow> (string \<times> string) list \<Rightarrow> (string \<times> string) list" where
  "spread base extra = foldl (\<lambda>h (k, v). set_header k v h) base extra"

text \<open>\<^verbatim>\<open>fetch(url, { ...options, headers })\<close>\<close>

definition api_request :: "string \<Rightarrow> options \<Rightarrow> (string \<times> string) list \<Rightarrow> request" where
  "api_request u opts hs =
     \<lparr> url = u, http_method = opt_method opts, headers = hs,
       body = (case opt_body opts of None \<Rightarrow> NoBody | Some b \<Rightarrow> Text b) \<rparr>"

definition token_endpoint :: string where
  "token_endpoint = ''http://localhost:8080/realms/agentic/protocol/openid-connect/token''"

definition logout_endpoint :: string where
  "logout_endpoint = ''http://localhost:8080/realms/agentic/protocol/openid-connect/logout''"

definition API_BASE_URL :: string where
  "API_BASE_URL = ''http://localhost:8000''"

text \<open>The refresh grant, as both \<^verbatim>\<open>refreshAccessToken\<close> and the gateway post it.\<close>

definition refresh_request :: "string \<Rightarrow> request" where
  "refresh_request rt =
     \<lparr> url = token_endpoint, http_method = Some ''POST'',
       headers = [(''Content-Type'', ''application/x-www-form-urlencoded'')],
       body = Form [(''client_id'', ''agentic-frontend''),
                    (''grant_type'', ''refresh_token''),
                    (''refresh_token'', rt)] \<rparr>"

text \<open>The tenant read back from storage by both gateways (auth.jsx 700-709,
  utils/apiClient.js 23-32).\<close>

definition stored_tenant :: "platform \<Rightarrow> world \<Rightarrow> jsval" where
  "stored_tenant pf w =
     (case storage w ''current_tenant'' of
        None \<Rightarrow> JNull
      | Some tenantString \<Rightarrow>
          if tenantString \<noteq> [] \<and> tenantString \<noteq> ''undefined'' \<and> tenantString \<noteq> ''null''
          then (case JSON_parse pf tenantString of None \<Rightarrow> JNull | Some t \<Rightarrow> t)
          else JNull)"

datatype outcome = Returned jsval | Thrown exn

section \<open>Authenticated request gateway: \<^verbatim>\<open>apiClient.request\<close> (auth.jsx)\<close>

text \<open>Lines 690-721: the headers of the first dispatch.\<close>

definition request_headers :: "platform \<Rightarrow> options \<Rightarrow> world \<Rightarrow> (string \<times> string) list" where
  "request_headers pf opts w =
     (let hdrs = spread [(''Content-Type'', ''application/json'')] (opt_headers opts);
          slug = opt_prop (stored_tenant pf w) ''slug'';
          hdrs = (if truthy slug then set_header ''X-Tenant-ID'' (to_string slug) hdrs
                     else hdrs)
      in case storage w ''access_token'' of
           None \<Rightarrow> hdrs
         | Some accessToken \<Rightarrow>
             if accessToken \<noteq> [] then set_header ''Authorization'' (''Bearer '' @ accessToken) hdrs
             else hdrs)"

text \<open>Lines 799-804: what the call does with its last response.\<close>

definition finish :: "response \<Rightarrow> outcome" where
  "finish r =
     (if \<not> ok r then
        (let error = (case json_body r of
                        None \<Rightarrow> JObj [(''detail'', JStr ''Request failed'')]
                      | Some e \<Rightarrow> e)
         in case get_prop error ''detail'' of
              Inl e \<Rightarrow> Thrown e
            | Inr d \<Rightarrow> Thrown (Error (to_string (js_or d (JStr ''Request failed'')))))
      else (case json_body r of None \<Rightarrow> Thrown SyntaxError | Some v \<Rightarrow> Returned v))"

text \<open>An awaited \<^verbatim>\<open>fetch\<close> that rejects throws out of the call, which has no
  \<^verbatim>\<open>try\<close>; a response goes to the last lines.\<close>

definition after_fetch :: "response option \<Rightarrow> outcome" where
  "after_fetch res = (case res of None \<Rightarrow> Thrown FetchError | Some response \<Rightarrow> finish response)"

text \<open>Lines 758-779: the renewed credentials are stored, the tenant is taken from the
  new access token, and the headers of the retry are rebuilt.\<close>

definition store_refreshed ::
  "platform \<Rightarrow> jsval \<Rightarrow> (string \<times> string) list \<Rightarrow> world \<Rightarrow> exn + ((string \<times> string) list \<times> world)" where
  "store_refreshed pf data hdrs w =
     (case get_prop data ''access_token'' of
        Inl e \<Rightarrow> Inl e
      | Inr access_token \<Rightarrow>
          (let w1 = setItem ''access_token'' (to_string access_token) w;
               w2 = setItem ''refresh_token'' (to_string (field data ''refresh_token'')) w1;
               decodedUser = decodeTokenPayload pf access_token;
               slug = opt_prop decodedUser ''tenant_slug''
           in if truthy slug then
                (let tenantInfo = JObj [(''slug'', slug),
                                        (''name'', js_or (field decodedUser ''tenant_name'') slug)];
                     w3 = setItem ''current_tenant'' (JSON_stringify pf tenantInfo) w2;
                     hdrs = set_header ''X-Tenant-ID'' (to_string slug) hdrs
                 in Inr (set_header ''Authorization'' (''Bearer '' @ to_string access_token) hdrs, w3))
              else Inr (set_header ''Authorization'' (''Bearer '' @ to_string access_token) hdrs, w2)))"

text \<open>Lines 788-790 and 793-795.\<close>

definition unauthorized :: "world \<Rightarrow> outcome \<times> world" where
  "unauthorized w = (Thrown (Error ''Unauthorized''), w\<lparr>href := Some ''/login''\<rparr>)"

text \<open>The whole call, each \<^verbatim>\<open>await fetch\<close> answered by the network in turn.\<close>

definition apiClient_request ::
  "platform \<Rightarrow> network \<Rightarrow> string \<Rightarrow> options \<Rightarrow> world \<Rightarrow> outcome \<times> world" where
  "apiClient_request pf net u opts w =
     (let hdrs = request_headers pf opts w;
          (res, w1) = fetch net Original (api_request u opts hdrs) w
      in case res of
           None \<Rightarrow> (Thrown FetchError, w1)
         | Some response \<Rightarrow>
             if status response = 401 then
               (case storage w1 ''refresh_token'' of
                  None \<Rightarrow> unauthorized w1
                | Some refreshToken \<Rightarrow>
                    if refreshToken = [] then unauthorized w1
                    else
                      (let (tres, w2) = fetch net Refresh (refresh_request refreshToken) w1
                       in case tres of
                            None \<Rightarrow> (Thrown FetchError, w2)
                          | Some tokenResponse \<Rightarrow>
                              if ok tokenResponse then
                                (case json_body tokenResponse of
                                   None \<Rightarrow> (Thrown SyntaxError, w2)
                                 | Some data \<Rightarrow>
                                     (case store_refreshed pf data hdrs w2 of
                                        Inl e \<Rightarrow> (Thrown e, w2)
                                      | Inr (hdrs', w3) \<Rightarrow>
                                          (let (rres, w4) = fetch net Retry (api_request u opts hdrs') w3
                                           in (after_fetch rres, w4))))
                              else unauthorized w2))
             else (finish response, w1))"

subsection \<open>The same call between its suspension points\<close>

text \<open>
  \<^verbatim>\<open>request\<close> is an \<^verbatim>\<open>async\<close> function: at each \<^verbatim>\<open>await fetch\<close> it gives
  control back to the event loop, and other calls run before it resumes. A suspended
  call remembers its local variables and the answer it is waiting for, which the
  network fixes when the request is dispatched. Reading the body of a response
  (\<^verbatim>\<open>await response.json()\<close>) is taken together with the arrival of that response.
\<close>

datatype call =
    AwaitFirst string options "(string \<times> string) list" "response option"
  | AwaitRefresh string options "(string \<times> string) list" "response option"
  | AwaitRetry "response option"
  | Finished outcome

text \<open>From the invocation to the first \<^verbatim>\<open>await\<close>.\<close>

definition request_begin :: "platform \<Rightarrow> network \<Rightarrow> string \<Rightarrow> options \<Rightarrow> world \<Rightarrow> call \<times> world" where
  "request_begin pf net u opts w =
     (let hdrs = request_headers pf opts w;
          (res, w1) = fetch net Original (api_request u opts hdrs) w
      in (AwaitFirst u opts hdrs res, w1))"

text \<open>From one \<^verbatim>\<open>await\<close> to the next, or to the end.\<close>

fun request_resume :: "platform \<Rightarrow> network \<Rightarrow> call \<Rightarrow> world \<Rightarrow> call \<times> world" where
  "request_resume pf net (AwaitFirst u opts hdrs res) w =
     (case res of
        None \<Rightarrow> (Finished (Thrown FetchError), w)
      | Some response \<Rightarrow>
          if status response = 401 then
            (case storage w ''refresh_token'' of
               None \<Rightarrow> (Finished (fst (unauthorized w)), snd (unauthorized w))
             | Some refreshToken \<Rightarrow>
                 if refreshToken = [] then (Finished (fst (unauthorized w)), snd (unauthorized w))
                 else
                   (let (tres, w1) = fetch net Refresh (refresh_request refreshToken) w
                    in (AwaitRefresh u opts hdrs tres, w1)))
          else (Finished (finish response), w))"
| "request_resume pf net (AwaitRefresh u opts hdrs tres) w =
     (case tres of
        None \<Rightarrow> (Finished (Thrown FetchError), w)
      | Some tokenResponse \<Rightarrow>
          if ok tokenResponse then
            (case json_body tokenResponse of
               None \<Rightarrow> (Finished (Thrown SyntaxError), w)
             | Some data \<Rightarrow>
                 (case store_refreshed pf data hdrs w of
                    Inl e \<Rightarrow> (Finished (Thrown e), w)
                  | Inr (hdrs', w1) \<Rightarrow>
                      (let (rres, w2) = fetch net Retry (api_request u opts hdrs') w1
                       in (AwaitRetry rres, w2))))
          else (Finished (fst (unauthorized w)), snd (unauthorized w)))"
| "request_resume pf net (AwaitRetry rres) w = (Finished (after_fetch rres), w)"
| "request_resume pf net (Finished out) w = (Finished out, w)"

text \<open>Several calls issued one after the other, each running to its first
  \<^verbatim>\<open>await\<close>.\<close>

fun begin_all :: "platform \<Rightarrow> network \<Rightarrow> (string \<times> options) list \<Rightarrow> world \<Rightarrow> call list \<times> world" where
  "begin_all pf net [] w = ([], w)"
| "begin_all pf net ((u, opts) # rs) w =
     (let (c, w1) = request_begin pf net u opts w;
          (cs, w2) = begin_all pf net rs w1
      in (c # cs, w2))"

text \<open>The event loop resumes the suspended calls in some order: a schedule names, step
  by step, the call that continues.\<close>

fun run_schedule :: "platform \<Rightarrow> network \<Rightarrow> nat list \<Rightarrow> call list \<times> world \<Rightarrow> call list \<times> world" where
  "run_schedule pf net [] cw = cw"
| "run_schedule pf net (i # sched) (cs, w) =
     (if i < length cs then
        (let (c, w1) = request_resume pf net (cs ! i) w
         in run_schedule pf net sched (cs[i := c], w1))
      else run_schedule pf net sched (cs, w))"

text \<open>The refresh grants among the requests sent.\<close>

definition refresh_grants :: "world \<Rightarrow> nat" where
  "refresh_grants w = length (filter (\<lambda>(s, rq). s = Refresh) (sent w))"

text \<open>A call suspended at its first \<^verbatim>\<open>await\<close> whose answer is a 401: when it resumes,
  line 733 takes it into the renewal.\<close>

fun renewal_due :: "call \<Rightarrow> bool" where
  "renewal_due (AwaitFirst u opts hdrs (Some response)) = (status response = 401)"
| "renewal_due c = False"

section \<open>The second gateway: \<^verbatim>\<open>ApiClient.request\<close> (utils/apiClient.js)\<close>

definition starts_with :: "string \<Rightarrow> string \<Rightarrow> bool" where
  "starts_with p s = (take (length p) s = p)"

text \<open>Lines 69-88: what the call does with the response.\<close>

definition ApiClient_handle :: "response \<Rightarrow> world \<Rightarrow> outcome \<times> world" where
  "ApiClient_handle response w =
     (if \<not> ok response then
        (let errorData = (case json_body response of None \<Rightarrow> JObj [] | Some e \<Rightarrow> e)
         in if status response = 401 then
              (Thrown (Error ''Authentication expired. Please login again.''),
               (removeItem ''refresh_token'' (removeItem ''access_token'' w))\<lparr>href := Some ''/login''\<rparr>)
            else
              (case get_prop errorData ''detail'' of
                 Inl e \<Rightarrow> (Thrown e, w)
               | Inr d \<Rightarrow>
                   (Thrown (Error (to_string
                      (js_or d
                        (js_or (opt_prop (field errorData ''error'') ''message'')
                           (JStr (''Request failed with status '' @ show_nat (status response))))))),
                    w)))
      else (case json_body response of
              None \<Rightarrow> (Thrown SyntaxError, w)
            | Some v \<Rightarrow> (Returned v, w)))"

text \<open>Lines 14-62: the credential is required, the headers are built, the request is
  dispatched.\<close>

definition ApiClient_request ::
  "platform \<Rightarrow> network \<Rightarrow> string \<Rightarrow> options \<Rightarrow> world \<Rightarrow> outcome \<times> world" where
  "ApiClient_request pf net endpoint opts w =
     (case storage w ''access_token'' of
        None \<Rightarrow> (Thrown (Error ''No authentication token found. Please login.''), w)
      | Some accessToken \<Rightarrow>
          if accessToken = [] then
            (Thrown (Error ''No authentication token found. Please login.''), w)
          else
            (let slug = opt_prop (stored_tenant pf w) ''slug'';
                 hdrs = spread [(''Content-Type'', ''application/json''),
                                (''Authorization'', ''Bearer '' @ accessToken)] (opt_headers opts);
                 hdrs = (if truthy slug then set_header ''X-Tenant-ID'' (to_string slug) hdrs else hdrs);
                 u = (if starts_with ''http'' endpoint then endpoint else API_BASE_URL @ endpoint);
                 (res, w1) = fetch net Original (api_request u opts hdrs) w
             in case res of
                  None \<Rightarrow> (Thrown FetchError, w1)
                | Some response \<Rightarrow> ApiClient_handle response w1))"

section \<open>\<^verbatim>\<open>AuthProvider\<close>: login, renewal and logout (auth.jsx)\<close>

definition logout_request :: "string \<Rightarrow> request" where
  "logout_request rt =
     \<lparr> url = logout_endpoint, http_method = Some ''POST'',
       headers = [(''Content-Type'', ''application/x-www-form-urlencoded'')],
       body = Form [(''client_id'', ''agentic-frontend''), (''refresh_token'', rt)] \<rparr>"

text \<open>Lines 362-395. Whatever the logout endpoint answers, and also when the call to it
  fails, the \<^verbatim>\<open>finally\<close> block clears the session.\<close>

definition logout :: "network \<Rightarrow> world \<Rightarrow> world" where
  "logout net w =
     (let w1 = (case storage w ''refresh_token'' of
                  None \<Rightarrow> w
                | Some storedRefresh \<Rightarrow>
                    if storedRefresh = [] then w
                    else snd (fetch net Logout (logout_request storedRefresh) w))
      in (removeItem ''refresh_token'' (removeItem ''access_token'' w1))
           \<lparr>st_user := JNull, st_token := JNull, st_refreshToken := JNull\<rparr>)"

text \<open>Lines 324-354: the \<^verbatim>\<open>try\<close> block of \<^verbatim>\<open>refreshAccessToken\<close> once the token
  endpoint has answered. Nothing is stored before the last statement that can throw.\<close>

definition refresh_try :: "platform \<Rightarrow> response option \<Rightarrow> world \<Rightarrow> exn + (jsval \<times> world)" where
  "refresh_try pf res w =
     (case res of
        None \<Rightarrow> Inl FetchError
      | Some response \<Rightarrow>
          if \<not> ok response then Inl (Error ''Token refresh failed'')
          else
            (case json_body response of
               None \<Rightarrow> Inl SyntaxError
             | Some data \<Rightarrow>
                 (case get_prop data ''access_token'' of
                    Inl e \<Rightarrow> Inl e
                  | Inr access_token \<Rightarrow>
                      (let refresh_token = field data ''refresh_token'';
                           w1 = setItem ''access_token'' (to_string access_token) w;
                           w2 = setItem ''refresh_token'' (to_string refresh_token) w1;
                           w3 = w2\<lparr>st_token := access_token, st_refreshToken := refresh_token\<rparr>;
                           decodedUser = decodeTokenPayload_provider pf access_token
                       in if truthy decodedUser then
                            (let w4 = w3\<lparr>st_user := decodedUser\<rparr>;
                                 tenant = field decodedUser ''tenant''
                             in if truthy tenant then
                                  (let tenantInfo = JObj [(''slug'', tenant), (''name'', tenant)]
                                   in Inr (access_token,
                                           setItem ''current_tenant'' (JSON_stringify pf tenantInfo) w4))
                                else Inr (access_token, w4))
                          else Inr (access_token, w3)))))"

text \<open>Lines 299-360. \<^verbatim>\<open>logout()\<close> is called without \<^verbatim>\<open>await\<close>, so the session
  is cleared once the logout endpoint has answered or failed; here that has happened
  when the result is looked at.\<close>

definition refreshAccessToken :: "platform \<Rightarrow> network \<Rightarrow> world \<Rightarrow> jsval \<times> world" where
  "refreshAccessToken pf net w =
     (case storage w ''refresh_token'' of
        None \<Rightarrow> (JUndefined, logout net w)
      | Some storedRefresh \<Rightarrow>
          if storedRefresh = [] then (JUndefined, logout net w)
          else
            (let (res, w1) = fetch net Refresh (refresh_request storedRefresh) w
             in case refresh_try pf res w1 of
                  Inl e \<Rightarrow> (JNull, logout net w1)
                | Inr (access_token, w2) \<Rightarrow> (access_token, w2)))"

definition login_request :: "string \<Rightarrow> string \<Rightarrow> request" where
  "login_request email password =
     \<lparr> url = token_endpoint, http_method = Some ''POST'',
       headers = [(''Content-Type'', ''application/x-www-form-urlencoded'')],
       body = Form [(''client_id'', ''agentic-frontend''),
                    (''grant_type'', ''password''),
                    (''username'', email),
                    (''password'', password)] \<rparr>"

definition profile_request :: "jsval \<Rightarrow> request" where
  "profile_request accessToken =
     \<lparr> url = API_BASE_URL @ ''/api/v1/users/me'', http_method = None,
       headers = [(''Authorization'', ''Bearer '' @ to_string accessToken),
                  (''Content-Type'', ''application/json'')],
       body = NoBody \<rparr>"

text \<open>
  Lines 35-44: \<^verbatim>\<open>fetchUserProfile\<close> up to its first \<^verbatim>\<open>await\<close>. Its first statement
  evaluates \<^verbatim>\<open>accessToken?.substring(0, 20)\<close>, which throws for a value that is
  neither a string nor nullish; \<^verbatim>\<open>login\<close> catches that and goes on. The answer of
  the profile endpoint is handled after \<^verbatim>\<open>login\<close> has returned.
\<close>

definition fetchUserProfile_begin :: "network \<Rightarrow> jsval \<Rightarrow> world \<Rightarrow> world" where
  "fetchUserProfile_begin net accessToken w =
     (case accessToken of
        JStr t \<Rightarrow> snd (fetch net Profile (profile_request accessToken) w)
      | JUndefined \<Rightarrow> snd (fetch net Profile (profile_request accessToken) w)
      | JNull \<Rightarrow> snd (fetch net Profile (profile_request accessToken) w)
      | _ \<Rightarrow> w)"

text \<open>Lines 197-238: the \<^verbatim>\<open>try\<close> block of \<^verbatim>\<open>login\<close> once the token endpoint has
  answered.\<close>

definition login_try :: "platform \<Rightarrow> network \<Rightarrow> response option \<Rightarrow> world \<Rightarrow> exn + world" where
  "login_try pf net res w =
     (case res of
        None \<Rightarrow> Inl FetchError
      | Some response \<Rightarrow>
          if \<not> ok response then
            (case json_body response of
               None \<Rightarrow> Inl SyntaxError
             | Some error \<Rightarrow>
                 (case get_prop error ''error_description'' of
                    Inl e \<Rightarrow> Inl e
                  | Inr d \<Rightarrow> Inl (Error (to_string (js_or d (JStr ''Login failed''))))))
          else
            (case json_body response of
               None \<Rightarrow> Inl SyntaxError
             | Some data \<Rightarrow>
                 (case get_prop data ''access_token'' of
                    Inl e \<Rightarrow> Inl e
                  | Inr access_token \<Rightarrow>
                      (let refresh_token = field data ''refresh_token'';
                           w1 = setItem ''access_token'' (to_string access_token) w;
                           w2 = setItem ''refresh_token'' (to_string refresh_token) w1;
                           w3 = w2\<lparr>st_token := access_token, st_refreshToken := refresh_token\<rparr>;
                           decodedUser = decodeTokenPayload_provider pf access_token;
                           w4 = (if truthy decodedUser then
                                   (let w' = w3\<lparr>st_user := decodedUser\<rparr>;
                                        tenant = field decodedUser ''tenant''
                                    in if truthy tenant then
                                         (let tenantInfo =
                                                JObj [(''slug'', tenant),
                                                      (''name'', js_or tenant (JStr ''Default Tenant''))]
                                          in setItem ''current_tenant'' (JSON_stringify pf tenantInfo) w')
                                       else w')
                                 else w3)
                       in Inr (fetchUserProfile_begin net access_token w4)))))"

datatype login_result = Success | Failure exn

text \<open>Lines 173-245.\<close>

definition login :: "platform \<Rightarrow> network \<Rightarrow> string \<Rightarrow> string \<Rightarrow> world \<Rightarrow> login_result \<times> world" where
  "login pf net email password w =
     (let (res, w1) = fetch net Login (login_request email password) w
      in case login_try pf net res w1 of
           Inl e \<Rightarrow> (Failure e, w1)
         | Inr w2 \<Rightarrow> (Success, w2))"

section \<open>Invitation handshake: \<^verbatim>\<open>handleSsoLogin\<close> and \<^verbatim>\<open>handleCallback\<close>\<close>

text \<open>
  \<^verbatim>\<open>AcceptInvitationPage.handleSsoLogin\<close> (lines 951-990): the invitation token of the
  link goes into the \<^verbatim>\<open>state\<close> parameter, and the browser is sent to the identity
  provider. Nothing else is written: no storage key, no cookie.
\<close>

definition sso_state :: "platform \<Rightarrow> string \<Rightarrow> string \<Rightarrow> string" where
  "sso_state pf invitationToken origin =
     btoa pf (JSON_stringify pf
       (JObj [(''invitation_token'', JStr invitationToken), (''return_url'', JStr origin)]))"

definition handleSsoLogin :: "platform \<Rightarrow> string \<Rightarrow> string \<Rightarrow> jsval \<Rightarrow> world \<Rightarrow> world" where
  "handleSsoLogin pf origin invitationToken provider w =
     (let redirectUri = origin @ ''/auth/callback'';
          authUrl = ''http://localhost:8080/realms/agentic/protocol/openid-connect/auth?''
                    @ ''client_id=agentic-frontend&''
                    @ ''redirect_uri='' @ encodeURIComponent pf redirectUri @ ''&''
                    @ ''response_type=code&''
                    @ ''scope=openid%20email%20profile&''
                    @ ''state='' @ encodeURIComponent pf (sso_state pf invitationToken origin);
          authUrl = (if truthy provider \<and> truthy (field provider ''alias'')
                     then authUrl @ ''&kc_idp_hint='' @ to_string (field provider ''alias'')
                     else authUrl)
      in w\<lparr>href := Some authUrl\<rparr>)"

text \<open>The query parameters of the callback URL, as \<^verbatim>\<open>searchParams.get\<close> returns
  them.\<close>

record callback_params =
  p_code :: "string option"
  p_state :: "string option"
  p_error :: "string option"
  p_error_description :: "string option"

text \<open>\<^verbatim>\<open>SSOCallbackPage.handleCallback\<close>, lines 53-63: the invitation token read from
  \<^verbatim>\<open>state\<close>; whatever goes wrong leaves it \<^verbatim>\<open>null\<close>.\<close>

definition state_invitation_token :: "platform \<Rightarrow> string option \<Rightarrow> jsval" where
  "state_invitation_token pf st =
     (case st of
        None \<Rightarrow> JNull
      | Some s \<Rightarrow>
          if s = [] then JNull
          else
            (case atob pf s of
               None \<Rightarrow> JNull
             | Some decoded \<Rightarrow>
                 (case JSON_parse pf decoded of
                    None \<Rightarrow> JNull
                  | Some stateData \<Rightarrow>
                      (case get_prop stateData ''invitation_token'' of
                         Inl e \<Rightarrow> JNull
                       | Inr t \<Rightarrow> t))))"

text \<open>Lines 67-72.\<close>

definition callbackUrl :: "platform \<Rightarrow> string \<Rightarrow> jsval \<Rightarrow> string" where
  "callbackUrl pf c invitationToken =
     ''/api/v1/auth/sso/callback?code='' @ encodeURIComponent pf c
       @ (if truthy invitationToken
          then ''&invitation_token='' @ encodeURIComponent pf (to_string invitationToken)
          else [])"

definition callback_request :: "platform \<Rightarrow> string \<Rightarrow> jsval \<Rightarrow> request" where
  "callback_request pf c invitationToken =
     \<lparr> url = callbackUrl pf c invitationToken, http_method = Some ''POST'',
       headers = [(''Content-Type'', ''application/json'')], body = NoBody \<rparr>"

text \<open>
  How the page ends: the welcome message with which it navigates to
  \<^verbatim>\<open>/admin/tenants\<close>, or the error it shows before it navigates to \<^verbatim>\<open>/login\<close>.
\<close>

datatype callback_result = CallbackDone jsval | CallbackFailed exn

text \<open>Lines 96-140: a successful answer of the backend is stored.\<close>

definition store_session :: "platform \<Rightarrow> jsval \<Rightarrow> world \<Rightarrow> callback_result \<times> world" where
  "store_session pf data w =
     (case get_prop data ''access_token'' of
        Inl e \<Rightarrow> (CallbackFailed e, w)
      | Inr access_token \<Rightarrow>
          (let w1 = setItem ''access_token'' (to_string access_token) w;
               refresh_token = field data ''refresh_token'';
               w2 = (if truthy refresh_token then setItem ''refresh_token'' (to_string refresh_token) w1
                     else w1);
               user = field data ''user'';
               tenant = opt_prop user ''tenant'';
               w3 = (if truthy tenant
                     then setItem ''current_tenant''
                            (JSON_stringify pf (JObj [(''slug'', tenant), (''name'', tenant)])) w2
                     else w2);
               w4 = (if truthy user then setItem ''user'' (JSON_stringify pf user) w3 else w3);
               welcome = (if truthy (field data ''invitation_accepted'')
                          then ''Welcome! Your account has been activated.''
                          else ''Welcome back!'')
           in (CallbackDone (js_or (field data ''message'') (JStr welcome)), w4)))"

text \<open>Lines 33-155.\<close>

definition handleCallback ::
  "platform \<Rightarrow> network \<Rightarrow> callback_params \<Rightarrow> world \<Rightarrow> callback_result \<times> world" where
  "handleCallback pf net ps w =
     (if present (p_error ps) then
        (CallbackFailed (Error (if present (p_error_description ps)
                                then (case p_error_description ps of None \<Rightarrow> [] | Some d \<Rightarrow> d)
                                else (case p_error ps of None \<Rightarrow> [] | Some e \<Rightarrow> e))), w)
      else
        (case p_code ps of
           None \<Rightarrow> (CallbackFailed (Error ''No authorization code received from SSO provider''), w)
         | Some c \<Rightarrow>
             if c = [] then
               (CallbackFailed (Error ''No authorization code received from SSO provider''), w)
             else
               (let invitationToken = state_invitation_token pf (p_state ps);
                    (res, w1) = fetch net Callback (callback_request pf c invitationToken) w
                in case res of
                     None \<Rightarrow> (CallbackFailed FetchError, w1)
                   | Some response \<Rightarrow>
                       if \<not> ok response then
                         (let errorData = (case json_body response of None \<Rightarrow> JObj [] | Some e \<Rightarrow> e)
                          in case get_prop errorData ''detail'' of
                               Inl e \<Rightarrow> (CallbackFailed e, w1)
                             | Inr d \<Rightarrow>
                                 (CallbackFailed (Error (to_string
                                    (js_or d (JStr (''Authentication failed (''
                                                    @ show_nat (status response) @ '')''))))), w1))
                       else
                         (case json_body response of
                            None \<Rightarrow> (CallbackFailed SyntaxError, w1)
                          | Some data \<Rightarrow> store_session pf data w1))))"

section \<open>Sample inputs\<close>

text \<open>
  Three credentials in the usual three-segment form (header \<^verbatim>\<open>{"alg":"RS256"}\<close>,
  signature \<^verbatim>\<open>sig\<close>). Their payloads are \<^verbatim>\<open>{"sub":"u1","tenant":"acme"}\<close>,
  \<^verbatim>\<open>{"sub":"u1","tenant":"globex"}\<close> and
  \<^verbatim>\<open>{"sub":"u1","preferred_username":"alice"}\<close>, the last with neither roles nor
  tenant.
\<close>

definition token_acme :: string where
  "token_acme = ''eyJhbGciOiJSUzI1NiJ9.eyJzdWIiOiJ1MSIsInRlbmFudCI6ImFjbWUifQ.c2ln''"

definition token_globex :: string where
  "token_globex = ''eyJhbGciOiJSUzI1NiJ9.eyJzdWIiOiJ1MSIsInRlbmFudCI6Imdsb2JleCJ9.c2ln''"

definition token_no_tenant :: string where
  "token_no_tenant =
     ''eyJhbGciOiJSUzI1NiJ9.eyJzdWIiOiJ1MSIsInByZWZlcnJlZF91c2VybmFtZSI6ImFsaWNlIn0.c2ln''"

text \<open>The first of them without its signature: two segments instead of three.\<close>

definition token_two_segments :: string where
  "token_two_segments = ''eyJhbGciOiJSUzI1NiJ9.eyJzdWIiOiJ1MSIsInRlbmFudCI6ImFjbWUifQ''"

definition no_options :: options where
  "no_options = \<lparr> opt_method = None, opt_headers = [], opt_body = None \<rparr>"

text \<open>A browser with nothing stored, and one holding a session.\<close>

definition empty_world :: world where
  "empty_world =
     \<lparr> storage = Map.empty, href = None, sent = [],
       st_user = JNull, st_token = JNull, st_refreshToken = JNull \<rparr>"

definition session_world :: world where
  "session_world =
     \<lparr> storage = [''access_token'' \<mapsto> ''old'', ''refresh_token'' \<mapsto> ''r1''],
       href = None, sent = [],
       st_user = JNull, st_token = JStr ''old'', st_refreshToken = JStr ''r1'' \<rparr>"

text \<open>The session with a tenant binding stored beside it.\<close>

definition bound_world :: world where
  "bound_world =
     setItem ''current_tenant''
       (ascii_JSON_stringify (JObj [(''slug'', JStr ''acme''), (''name'', JStr ''acme'')]))
       session_world"

text \<open>
  Networks. In \<open>expired_net\<close> the API rejects every credential but the renewed one,
  which it answers with the given status, and the identity provider grants every
  refresh. In \<open>rotating_net\<close> the identity provider honours a refresh credential
  once. In \<open>revoked_net\<close> it honours none. In \<open>open_net\<close> every request succeeds.
\<close>

definition renewed_tokens :: jsval where
  "renewed_tokens = JObj [(''access_token'', JStr ''new''), (''refresh_token'', JStr ''r2'')]"

definition invalid_grant :: response where
  "invalid_grant = \<lparr> status = 400, json_body = Some (JObj [(''error'', JStr ''invalid_grant'')]) \<rparr>"

definition api_answer :: "nat \<Rightarrow> request \<Rightarrow> response option" where
  "api_answer st rq =
     (if map_of (headers rq) ''Authorization'' = Some ''Bearer new''
      then Some \<lparr> status = st, json_body = Some (JObj []) \<rparr>
      else Some \<lparr> status = 401, json_body = Some (JObj []) \<rparr>)"

definition expired_net :: "nat \<Rightarrow> network" where
  "expired_net st log rq =
     (if url rq = token_endpoint then Some \<lparr> status = 200, json_body = Some renewed_tokens \<rparr>
      else api_answer st rq)"

definition rotating_net :: network where
  "rotating_net log rq =
     (if url rq = token_endpoint then
        (if filter (\<lambda>(s, q). s = Refresh \<and> body q = body rq) log = []
         then Some \<lparr> status = 200, json_body = Some renewed_tokens \<rparr>
         else Some invalid_grant)
      else api_answer 200 rq)"

definition revoked_net :: network where
  "revoked_net log rq =
     (if url rq = token_endpoint then Some invalid_grant
      else if url rq = logout_endpoint then Some \<lparr> status = 204, json_body = None \<rparr>
      else api_answer 200 rq)"

definition open_net :: network where
  "open_net log rq = Some \<lparr> status = 200, json_body = Some (JObj []) \<rparr>"

text \<open>Two API calls, and the two of them issued together on the stored session.\<close>

definition agents_url :: string where
  "agents_url = ''http://localhost:8000/api/v1/agents''"

definition tenants_url :: string where
  "tenants_url = ''http://localhost:8000/api/v1/tenants''"

definition two_calls :: "call list \<times> world" where
  "two_calls =
     begin_all ascii_platform rotating_net
       [(agents_url, no_options), (tenants_url, no_options)] session_world"

text \<open>
  The handshake: the application's origin, the query parameters of a callback, and what
  the backend's callback endpoint answers for a credential and a tenant. An invitation,
  as \<^verbatim>\<open>GET /api/v1/auth/invitation/{token}\<close> describes it to the accepting page.
\<close>

definition app_origin :: string where
  "app_origin = ''https://app.example''"

definition callback_with :: "string option \<Rightarrow> callback_params" where
  "callback_with st =
     \<lparr> p_code = Some ''abc'', p_state = st, p_error = None, p_error_description = None \<rparr>"

definition sso_answer :: "string \<Rightarrow> string \<Rightarrow> jsval" where
  "sso_answer tok tenant =
     JObj [(''access_token'', JStr tok),
           (''refresh_token'', JStr ''r1''),
           (''user'', JObj [(''email'', JStr ''alice@x.com''), (''tenant'', JStr tenant)]),
           (''invitation_accepted'', JBool True)]"

definition backend_net :: "jsval \<Rightarrow> network" where
  "backend_net data log rq = Some \<lparr> status = 200, json_body = Some data \<rparr>"

definition invitation_acme :: jsval where
  "invitation_acme =
     JObj [(''email'', JStr ''alice@x.com''),
           (''tenant_name'', JStr ''acme''),
           (''invited_by_email'', JStr ''bob@acme.com''),
           (''roles'', JArr [JStr ''USER''])]"

text \<open>What the token endpoint answers to a grant, and an identity provider that
  grants whatever it is asked.\<close>

definition token_response :: "string \<Rightarrow> response" where
  "token_response tok =
     \<lparr> status = 200,
       json_body = Some (JObj [(''access_token'', JStr tok), (''refresh_token'', JStr ''r2'')]) \<rparr>"

definition granting_net :: "string \<Rightarrow> network" where
  "granting_net tok log rq = Some (token_response tok)"

section \<open>Credential codec: what the decoder returns\<close>

lemma decode_provider_shape:
  "decodeTokenPayload_provider pf tok = JNull
   \<or> (\<exists>fields. decodeTokenPayload_provider pf tok = JObj fields)"
  by (auto simp: decodeTokenPayload_provider_def provider_decode_try_def provider_user_def
      split: sum.splits if_splits)

lemma decode_module_shape:
  "decodeTokenPayload pf tok = JNull \<or> (\<exists>fields. decodeTokenPayload pf tok = JObj fields)"
  by (auto simp: decodeTokenPayload_def module_decode_try_def module_user_def
      split: sum.splits if_splits)

text \<open>
  C8, as the code has it. The decoder never lets an exception out: its result is
  \<^verbatim>\<open>null\<close> or a claims object, for every argument. It is \<^verbatim>\<open>null\<close> when the string
  has no second dot-separated segment, when that segment is not base64, when the bytes
  are not UTF-8, and when the payload text is not JSON or is \<^verbatim>\<open>null\<close>. The number of
  segments is not looked at otherwise: whenever the second segment holds a readable
  payload, the claims object built from it is returned.
\<close>

theorem decode_total_null_on_unreadable_payload:
  "(length (split_on CHR ''.'' t) < 2 \<longrightarrow> decodeTokenPayload_provider pf (JStr t) = JNull)
 \<and> (index (split_on CHR ''.'' t) 1 = Some seg \<and> atob pf (base64url_to_base64 seg) = None
      \<longrightarrow> decodeTokenPayload_provider pf (JStr t) = JNull)
 \<and> (index (split_on CHR ''.'' t) 1 = Some seg \<and> atob pf (base64url_to_base64 seg) = Some bytes
      \<and> decodeURIComponent pf (percent_encode bytes) = None
      \<longrightarrow> decodeTokenPayload_provider pf (JStr t) = JNull)
 \<and> (index (split_on CHR ''.'' t) 1 = Some seg \<and> atob pf (base64url_to_base64 seg) = Some bytes
      \<and> decodeURIComponent pf (percent_encode bytes) = Some src
      \<and> (JSON_parse pf src = None \<or> JSON_parse pf src = Some JNull)
      \<longrightarrow> decodeTokenPayload_provider pf (JStr t) = JNull)
 \<and> (index (split_on CHR ''.'' t) 1 = Some seg \<and> atob pf (base64url_to_base64 seg) = Some bytes
      \<and> decodeURIComponent pf (percent_encode bytes) = Some src
      \<and> JSON_parse pf src = Some payload \<and> \<not> nullish payload
      \<longrightarrow> provider_user payload = Inr (decodeTokenPayload_provider pf (JStr t))
          \<and> decodeTokenPayload_provider pf (JStr t) \<noteq> JNull)
 \<and> (decodeTokenPayload_provider pf tok = JNull
      \<or> (\<exists>fields. decodeTokenPayload_provider pf tok = JObj fields))"
  using decode_provider_shape[of pf tok]
  by (auto simp: decodeTokenPayload_provider_def provider_decode_try_def token_payload_def
      provider_user_def index_def split: sum.splits option.splits)

text \<open>
  The cases at work: a string without a dot, a second segment that is not base64
  (\<^verbatim>\<open>!!!\<close>), one that decodes to the text \<^verbatim>\<open>{\<close>, and a credential with a tenant.
\<close>

theorem decode_total_null_on_unreadable_payload_witness:
  "length (split_on CHR ''.'' ''not-a-token'') < 2
   \<and> decodeTokenPayload_provider ascii_platform (JStr ''not-a-token'') = JNull
   \<and> index (split_on CHR ''.'' ''a.!!!.c'') 1 = Some ''!!!''
   \<and> atob ascii_platform (base64url_to_base64 ''!!!'') = None
   \<and> decodeTokenPayload_provider ascii_platform (JStr ''a.!!!.c'') = JNull
   \<and> index (split_on CHR ''.'' ''a.ew.c'') 1 = Some ''ew''
   \<and> atob ascii_platform (base64url_to_base64 ''ew'') = Some ''{''
   \<and> decodeURIComponent ascii_platform (percent_encode ''{'') = Some ''{''
   \<and> JSON_parse ascii_platform ''{'' = None
   \<and> decodeTokenPayload_provider ascii_platform (JStr ''a.ew.c'') = JNull
   \<and> decodeTokenPayload_provider ascii_platform (JStr token_acme) \<noteq> JNull"
proof -
  note T = decode_total_null_on_unreadable_payload
  have a: "length (split_on CHR ''.'' ''not-a-token'') < 2"
    by code_simp
  have b: "index (split_on CHR ''.'' ''a.!!!.c'') 1 = Some ''!!!''"
          "atob ascii_platform (base64url_to_base64 ''!!!'') = None"
    by code_simp+
  have c: "index (split_on CHR ''.'' ''a.ew.c'') 1 = Some ''ew''"
          "atob ascii_platform (base64url_to_base64 ''ew'') = Some ''{''"
          "decodeURIComponent ascii_platform (percent_encode ''{'') = Some ''{''"
          "JSON_parse ascii_platform ''{'' = None"
    by code_simp+
  have d: "index (split_on CHR ''.'' token_acme) 1 = Some ''eyJzdWIiOiJ1MSIsInRlbmFudCI6ImFjbWUifQ''"
          "atob ascii_platform (base64url_to_base64 ''eyJzdWIiOiJ1MSIsInRlbmFudCI6ImFjbWUifQ'')
             = Some (ascii_JSON_stringify (JObj [(''sub'', JStr ''u1''), (''tenant'', JStr ''acme'')]))"
          "decodeURIComponent ascii_platform
              (percent_encode (ascii_JSON_stringify (JObj [(''sub'', JStr ''u1''), (''tenant'', JStr ''acme'')])))
             = Some (ascii_JSON_stringify (JObj [(''sub'', JStr ''u1''), (''tenant'', JStr ''acme'')]))"
          "JSON_parse ascii_platform
              (ascii_JSON_stringify (JObj [(''sub'', JStr ''u1''), (''tenant'', JStr ''acme'')]))
             = Some (JObj [(''sub'', JStr ''u1''), (''tenant'', JStr ''acme'')])"
          "\<not> nullish (JObj [(''sub'', JStr ''u1''), (''tenant'', JStr ''acme'')])"
    by code_simp+
  have 1: "decodeTokenPayload_provider ascii_platform (JStr ''not-a-token'') = JNull"
    using T[where t = "''not-a-token''" and pf = ascii_platform] a by blast
  have 2: "decodeTokenPayload_provider ascii_platform (JStr ''a.!!!.c'') = JNull"
    using T[where t = "''a.!!!.c''" and pf = ascii_platform and seg = "''!!!''"] b by blast
  have 3: "decodeTokenPayload_provider ascii_platform (JStr ''a.ew.c'') = JNull"
    using T[where t = "''a.ew.c''" and pf = ascii_platform and seg = "''ew''"
              and bytes = "''{''" and src = "''{''"] c by blast
  have 4: "decodeTokenPayload_provider ascii_platform (JStr token_acme) \<noteq> JNull"
    using T[where t = token_acme and pf = ascii_platform
              and seg = "''eyJzdWIiOiJ1MSIsInRlbmFudCI6ImFjbWUifQ''"
              and bytes = "ascii_JSON_stringify (JObj [(''sub'', JStr ''u1''), (''tenant'', JStr ''acme'')])"
              and src = "ascii_JSON_stringify (JObj [(''sub'', JStr ''u1''), (''tenant'', JStr ''acme'')])"
              and payload = "JObj [(''sub'', JStr ''u1''), (''tenant'', JStr ''acme'')]"] d
    by blast
  from a b c 1 2 3 4 show ?thesis by blast
qed

text \<open>
  C8 as stated fails: a credential with two segments instead of three has the wrong
  segment count, and is decoded all the same.
\<close>

theorem decode_accepts_wrong_segment_count:
  "length (split_on CHR ''.'' token_two_segments) = 2
   \<and> decodeTokenPayload_provider ascii_platform (JStr token_two_segments) =
       JObj [(''id'', JStr ''u1''), (''email'', JUndefined), (''name'', JUndefined),
             (''username'', JUndefined), (''roles'', JArr []), (''tenant'', JStr ''acme'')]"
  by code_simp

text \<open>
  C7 at a credential whose payload has neither roles nor tenant. Decoding succeeds and
  the roles default to the empty array, but the decoder inside \<^verbatim>\<open>AuthProvider\<close>
  answers the one-character string \<^verbatim>\<open>" "\<close> for the tenant. That string is truthy, so
  the callers' test \<^verbatim>\<open>if (decodedUser.tenant)\<close> takes it for a tenant, and a login
  with this credential stores the blank as the tenant binding. The module-level decoder
  answers \<^verbatim>\<open>undefined\<close> for the same credential.
\<close>

theorem provider_decoder_blank_tenant_default:
  \<open>decodeTokenPayload_provider ascii_platform (JStr token_no_tenant) =
     JObj [(''id'', JStr ''u1''), (''email'', JStr ''alice''), (''name'', JStr ''alice''),
           (''username'', JStr ''alice''), (''roles'', JArr []), (''tenant'', JStr '' '')]
   \<and> truthy (field (decodeTokenPayload_provider ascii_platform (JStr token_no_tenant)) ''tenant'')
   \<and> storage (snd (login ascii_platform (granting_net token_no_tenant) ''alice'' ''secret''
                     empty_world)) ''current_tenant''
       = Some ''{"slug":" ","name":" "}''
   \<and> field (decodeTokenPayload ascii_platform (JStr token_no_tenant)) ''tenant_slug'' = JUndefined
   \<and> field (decodeTokenPayload ascii_platform (JStr token_no_tenant)) ''roles'' = JArr []\<close>
  by code_simp

section \<open>The gateways\<close>

lemma map_of_set_header:
  "map_of (set_header k v hs) k' = (if k' = k then Some v else map_of hs k')"
  by (induction hs) auto

lemma map_of_spread_other:
  "k \<notin> fst ` set extra \<Longrightarrow> map_of (spread base extra) k = map_of base k"
  unfolding spread_def
  by (induction extra arbitrary: base) (auto simp: map_of_set_header)

lemma request_headers_no_token:
  "\<not> present (storage w ''access_token'') \<Longrightarrow> ''Authorization'' \<notin> fst ` set (opt_headers opts) \<Longrightarrow>
   map_of (request_headers pf opts w) ''Authorization'' = None"
  by (auto simp: request_headers_def Let_def map_of_set_header map_of_spread_other
      split: option.splits)

lemma first_dispatch:
  "\<exists>rest. sent (snd (apiClient_request pf net u opts w))
     = sent w @ (Original, api_request u opts (request_headers pf opts w)) # rest"
  by (auto simp: apiClient_request_def fetch_def unauthorized_def store_refreshed_def setItem_def Let_def
      split: option.splits sum.splits if_splits prod.splits)

text \<open>
  C9, as the code has it. With no access credential stored, \<^verbatim>\<open>ApiClient.request\<close>
  (utils/apiClient.js) throws before it dispatches anything. \<^verbatim>\<open>apiClient.request\<close>
  (auth.jsx) dispatches the request all the same, and without an
  \<^verbatim>\<open>Authorization\<close> header unless the caller's own headers bring one.
\<close>

theorem no_session_fail_fast_or_anonymous:
  "\<not> present (storage w ''access_token'') \<Longrightarrow>
     ApiClient_request pf net endpoint opts w
       = (Thrown (Error ''No authentication token found. Please login.''), w)
   \<and> (\<exists>rest. sent (snd (apiClient_request pf net u opts w))
         = sent w @ (Original, api_request u opts (request_headers pf opts w)) # rest)
   \<and> (''Authorization'' \<notin> fst ` set (opt_headers opts)
        \<longrightarrow> map_of (request_headers pf opts w) ''Authorization'' = None)"
  using first_dispatch[of pf net u opts w] request_headers_no_token[of w opts pf]
  by (cases "storage w ''access_token''") (simp_all add: ApiClient_request_def)

theorem no_session_fail_fast_or_anonymous_witness:
  "\<not> present (storage empty_world ''access_token'')
   \<and> ''Authorization'' \<notin> fst ` set (opt_headers no_options)
   \<and> ApiClient_request ascii_platform open_net ''/api/v1/agents'' no_options empty_world
       = (Thrown (Error ''No authentication token found. Please login.''), empty_world)
   \<and> map_of (request_headers ascii_platform no_options empty_world) ''Authorization'' = None"
proof -
  have a: "\<not> present (storage empty_world ''access_token'')"
    by (simp add: empty_world_def)
  have b: "''Authorization'' \<notin> fst ` set (opt_headers no_options)"
    by (simp add: no_options_def)
  from no_session_fail_fast_or_anonymous[OF a, of ascii_platform open_net "''/api/v1/agents''" no_options agents_url] b
  show ?thesis using a by blast
qed

text \<open>
  C9 as stated fails for the gateway of auth.jsx: with nothing stored, the request goes
  out with no bearer credential, and the call returns what the server answers.
\<close>

theorem anonymous_request_is_dispatched:
  "storage empty_world ''access_token'' = None
   \<and> apiClient_request ascii_platform open_net agents_url no_options empty_world
       = (Returned (JObj []),
          empty_world\<lparr>sent :=
            [(Original, \<lparr> url = agents_url, http_method = None,
                          headers = [(''Content-Type'', ''application/json'')],
                          body = NoBody \<rparr>)]\<rparr>)"
  by (simp add: empty_world_def apiClient_request_def request_headers_def stored_tenant_def
      opt_prop_def spread_def fetch_def open_net_def api_request_def no_options_def finish_def ok_def)

lemma ApiClient_handle_sent: "sent (snd (ApiClient_handle r w)) = sent w"
  by (simp add: ApiClient_handle_def removeItem_def Let_def split: option.split sum.split)

lemma ApiClient_trace:
  "sent (snd (ApiClient_request pf net endpoint opts w)) = sent w
   \<or> (\<exists>r1. sent (snd (ApiClient_request pf net endpoint opts w)) = sent w @ [(Original, r1)])"
  by (simp add: ApiClient_request_def fetch_def ApiClient_handle_sent Let_def
      split: option.split)

lemma finish_unauthorized_throws:
  "status r = 401 \<Longrightarrow> \<exists>e. finish r = Thrown e"
  by (auto simp: finish_def ok_def Let_def split: sum.splits option.splits)

lemma store_refreshed_keeps:
  "store_refreshed pf data hdrs w = Inr (hdrs', w') \<Longrightarrow> sent w' = sent w \<and> href w' = href w"
  by (auto simp: store_refreshed_def setItem_def Let_def split: sum.splits if_splits)

lemma request_shape:
  "(\<exists>r1. sent (snd (apiClient_request pf net u opts w)) = sent w @ [(Original, r1)])
   \<or> (\<exists>r1 r2. sent (snd (apiClient_request pf net u opts w))
         = sent w @ [(Original, r1), (Refresh, r2)])
   \<or> (\<exists>r1 r2 r3. sent (snd (apiClient_request pf net u opts w))
         = sent w @ [(Original, r1), (Refresh, r2), (Retry, r3)]
       \<and> href (snd (apiClient_request pf net u opts w)) = href w
       \<and> fst (apiClient_request pf net u opts w)
           = after_fetch (net (sent w @ [(Original, r1), (Refresh, r2)]) r3))"
  by (auto simp: apiClient_request_def fetch_def unauthorized_def Let_def
      dest: store_refreshed_keeps
      split: option.splits sum.splits if_splits prod.splits)

lemma request_by_steps:
  "(let (c1, w1) = request_begin pf net u opts w;
        (c2, w2) = request_resume pf net c1 w1;
        (c3, w3) = request_resume pf net c2 w2
    in request_resume pf net c3 w3)
   = (Finished (fst (apiClient_request pf net u opts w)), snd (apiClient_request pf net u opts w))"
  by (auto simp: apiClient_request_def request_begin_def fetch_def Let_def after_fetch_def
      split: option.splits sum.splits if_splits prod.splits)


text \<open>
  C2, as the code has it. A call through \<^verbatim>\<open>apiClient.request\<close> (auth.jsx) sends its
  request, at most one refresh grant and at most one retry, in that order, and nothing
  after the retry. When the retry is answered 401 as well, the call throws the error it
  builds from any failed response, and does not send the browser to the login page. A
  call through \<^verbatim>\<open>ApiClient.request\<close> (utils/apiClient.js) sends at most one request:
  it neither renews nor retries.
\<close>

theorem gateway_renews_once_retries_once:
  "((\<exists>r1. sent (snd (apiClient_request pf net u opts w)) = sent w @ [(Original, r1)])
    \<or> (\<exists>r1 r2. sent (snd (apiClient_request pf net u opts w))
          = sent w @ [(Original, r1), (Refresh, r2)])
    \<or> (\<exists>r1 r2 r3. sent (snd (apiClient_request pf net u opts w))
          = sent w @ [(Original, r1), (Refresh, r2), (Retry, r3)]
        \<and> href (snd (apiClient_request pf net u opts w)) = href w
        \<and> (\<forall>resp. net (sent w @ [(Original, r1), (Refresh, r2)]) r3 = Some resp
                    \<and> status resp = 401
              \<longrightarrow> fst (apiClient_request pf net u opts w) = finish resp
                  \<and> (\<exists>e. finish resp = Thrown e))))
   \<and> (sent (snd (ApiClient_request pf net endpoint opts w)) = sent w
       \<or> (\<exists>r1. sent (snd (ApiClient_request pf net endpoint opts w)) = sent w @ [(Original, r1)]))"
proof -
  let ?R = "apiClient_request pf net u opts w"
  have "\<forall>resp. net (sent w @ [(Original, r1), (Refresh, r2)]) r3 = Some resp \<and> status resp = 401
          \<longrightarrow> fst ?R = finish resp \<and> (\<exists>e. finish resp = Thrown e)"
    if "fst ?R = after_fetch (net (sent w @ [(Original, r1), (Refresh, r2)]) r3)" for r1 r2 r3
    using that finish_unauthorized_throws by (auto simp: after_fetch_def)
  then show ?thesis
    using request_shape[of pf net u opts w] ApiClient_trace[of pf net endpoint opts w]
    by blast
qed

text \<open>An expired session, a granted renewal, and a retry that is answered 401 again.\<close>

theorem gateway_renews_once_retries_once_witness:
  "sent (snd (apiClient_request ascii_platform (expired_net 401) agents_url no_options session_world))
     = sent session_world @
       [(Original, api_request agents_url no_options
                     [(''Content-Type'', ''application/json''), (''Authorization'', ''Bearer old'')]),
        (Refresh, refresh_request ''r1''),
        (Retry, api_request agents_url no_options
                  [(''Content-Type'', ''application/json''), (''Authorization'', ''Bearer new'')])]
   \<and> expired_net 401
        (sent session_world @
          [(Original, api_request agents_url no_options
                        [(''Content-Type'', ''application/json''), (''Authorization'', ''Bearer old'')]),
           (Refresh, refresh_request ''r1'')])
        (api_request agents_url no_options
           [(''Content-Type'', ''application/json''), (''Authorization'', ''Bearer new'')])
       = Some \<lparr> status = 401, json_body = Some (JObj []) \<rparr>
   \<and> status \<lparr> status = 401, json_body = Some (JObj []) \<rparr> = 401
   \<and> fst (apiClient_request ascii_platform (expired_net 401) agents_url no_options session_world)
       = finish \<lparr> status = 401, json_body = Some (JObj []) \<rparr>
   \<and> (\<exists>e. finish \<lparr> status = 401, json_body = Some (JObj []) \<rparr> = Thrown e)"
proof -
  let ?R = "apiClient_request ascii_platform (expired_net 401) agents_url no_options session_world"
  let ?r1 = "api_request agents_url no_options
               [(''Content-Type'', ''application/json''), (''Authorization'', ''Bearer old'')]"
  let ?r2 = "refresh_request ''r1''"
  let ?r3 = "api_request agents_url no_options
               [(''Content-Type'', ''application/json''), (''Authorization'', ''Bearer new'')]"
  let ?resp = "\<lparr> status = 401, json_body = Some (JObj []) \<rparr>"
  have s: "sent (snd ?R) = sent session_world @ [(Original, ?r1), (Refresh, ?r2), (Retry, ?r3)]"
    by code_simp
  have n: "expired_net 401 (sent session_world @ [(Original, ?r1), (Refresh, ?r2)]) ?r3 = Some ?resp"
    by code_simp
  have st: "status ?resp = 401"
    by simp
  from gateway_renews_once_retries_once[of ascii_platform "expired_net 401" agents_url no_options
        session_world "''/api/v1/agents''"] s
  have "\<forall>resp. expired_net 401 (sent session_world @ [(Original, ?r1), (Refresh, ?r2)]) ?r3 = Some resp
                \<and> status resp = 401
          \<longrightarrow> fst ?R = finish resp \<and> (\<exists>e. finish resp = Thrown e)"
    by auto
  with n st have "fst ?R = finish ?resp \<and> (\<exists>e. finish ?resp = Thrown e)"
    by blast
  with s n st show ?thesis by blast
qed


text \<open>
  C2 as stated fails in its last part. After a granted renewal and a second 401, the
  call throws \<^verbatim>\<open>Error('Request failed')\<close>: the very error a 500 at the second attempt
  gives. Nothing tells the caller that the session has expired: the renewed
  credentials stay stored and the browser is not sent to the login page.
\<close>

theorem second_401_is_a_plain_failure:
  "fst (apiClient_request ascii_platform (expired_net 401) agents_url no_options session_world)
     = Thrown (Error ''Request failed'')
   \<and> fst (apiClient_request ascii_platform (expired_net 500) agents_url no_options session_world)
     = Thrown (Error ''Request failed'')
   \<and> map fst (sent (snd (apiClient_request ascii_platform (expired_net 401) agents_url no_options
                          session_world)))
     = [Original, Refresh, Retry]
   \<and> href (snd (apiClient_request ascii_platform (expired_net 401) agents_url no_options session_world))
     = None
   \<and> storage (snd (apiClient_request ascii_platform (expired_net 401) agents_url no_options
                     session_world)) ''access_token''
     = Some ''new''
   \<and> storage (snd (apiClient_request ascii_platform (expired_net 401) agents_url no_options
                     session_world)) ''refresh_token''
     = Some ''r2''"
  by code_simp

lemma logout_clears:
  "storage (logout net w) ''access_token'' = None \<and> storage (logout net w) ''refresh_token'' = None"
  by (simp add: logout_def removeItem_def fetch_def Let_def split: option.split)

text \<open>
  A failed renewal in general. Whatever makes the \<^verbatim>\<open>try\<close> block of
  \<^verbatim>\<open>refreshAccessToken\<close> throw, one refresh grant has been sent and both credentials
  are removed. In the gateway, a refresh grant that is not granted leads to the login
  page with the storage untouched.
\<close>

lemma refresh_failure_logs_out:
  "storage w ''refresh_token'' = Some rt \<Longrightarrow> rt \<noteq> [] \<Longrightarrow>
   refresh_try pf (net (sent w) (refresh_request rt))
     (w\<lparr>sent := sent w @ [(Refresh, refresh_request rt)]\<rparr>) = Inl e \<Longrightarrow>
   fst (refreshAccessToken pf net w) = JNull
   \<and> storage (snd (refreshAccessToken pf net w)) ''access_token'' = None
   \<and> storage (snd (refreshAccessToken pf net w)) ''refresh_token'' = None
   \<and> refresh_grants (snd (refreshAccessToken pf net w)) = Suc (refresh_grants w)"
  by (simp add: refreshAccessToken_def fetch_def logout_clears logout_def removeItem_def
      refresh_grants_def Let_def split: option.split)

lemma gateway_renewal_failure:
  "net (sent w) (api_request u opts (request_headers pf opts w)) = Some r \<Longrightarrow> status r = 401 \<Longrightarrow>
   storage w ''refresh_token'' = Some rt \<Longrightarrow> rt \<noteq> [] \<Longrightarrow>
   net (sent w @ [(Original, api_request u opts (request_headers pf opts w))]) (refresh_request rt)
     = Some tr \<Longrightarrow>
   \<not> ok tr \<Longrightarrow>
   apiClient_request pf net u opts w =
     (Thrown (Error ''Unauthorized''),
      w\<lparr>sent := sent w @ [(Original, api_request u opts (request_headers pf opts w)),
                           (Refresh, refresh_request rt)],
        href := Some ''/login''\<rparr>)"
  by (simp add: apiClient_request_def fetch_def unauthorized_def)

text \<open>
  C6 where the identity provider answers the refresh grant with \<^verbatim>\<open>invalid_grant\<close>.
  Neither path repeats the renewal. \<^verbatim>\<open>refreshAccessToken\<close> logs out, which removes
  both credentials. The gateway of auth.jsx sends the browser to the login page and
  throws, and both credentials are still stored.
\<close>

theorem gateway_keeps_session_when_renewal_fails:
  "fst (apiClient_request ascii_platform revoked_net agents_url no_options session_world)
     = Thrown (Error ''Unauthorized'')
   \<and> href (snd (apiClient_request ascii_platform revoked_net agents_url no_options session_world))
     = Some ''/login''
   \<and> map fst (sent (snd (apiClient_request ascii_platform revoked_net agents_url no_options
                          session_world)))
     = [Original, Refresh]
   \<and> storage (snd (apiClient_request ascii_platform revoked_net agents_url no_options session_world))
        ''access_token'' = Some ''old''
   \<and> storage (snd (apiClient_request ascii_platform revoked_net agents_url no_options session_world))
        ''refresh_token'' = Some ''r1''
   \<and> fst (refreshAccessToken ascii_platform revoked_net session_world) = JNull
   \<and> map fst (sent (snd (refreshAccessToken ascii_platform revoked_net session_world)))
     = [Refresh, Logout]
   \<and> storage (snd (refreshAccessToken ascii_platform revoked_net session_world)) ''access_token''
     = None
   \<and> storage (snd (refreshAccessToken ascii_platform revoked_net session_world)) ''refresh_token''
     = None"
  by code_simp

text \<open>
  C3 as stated fails. Two calls are issued together on an expired session and resume in
  turn. Each sends a refresh grant of its own, with the same refresh credential; the
  identity provider honours it once, so one call succeeds and the other is sent to the
  login page.
\<close>

theorem concurrent_calls_renew_separately:
  "refresh_grants (snd two_calls) = 0
   \<and> refresh_grants (snd (run_schedule ascii_platform rotating_net [0, 1, 0, 1, 0, 1] two_calls)) = 2
   \<and> fst (run_schedule ascii_platform rotating_net [0, 1, 0, 1, 0, 1] two_calls)
       = [Finished (Returned (JObj [])), Finished (Thrown (Error ''Unauthorized''))]"
  by code_simp

text \<open>
  What one resumption does to the pool. The stored refresh credential stays present as
  long as the identity provider grants no empty one; a call resumed at its first
  \<^verbatim>\<open>await\<close> after a 401 sends one refresh grant, and no other resumption sends any.
\<close>

lemma store_refreshed_refresh_token:
  "store_refreshed pf data hdrs w = Inr (hdrs', w') \<Longrightarrow>
   storage w' ''refresh_token'' = Some (to_string (field data ''refresh_token''))
   \<and> sent w' = sent w"
  by (auto simp: store_refreshed_def setItem_def Let_def split: sum.splits if_splits)

lemma refresh_grants_sent: "sent w' = sent w \<Longrightarrow> refresh_grants w' = refresh_grants w"
  by (simp add: refresh_grants_def)

lemma refresh_grants_retry:
  "refresh_grants (w\<lparr>sent := sent w @ [(Retry, rq)]\<rparr>) = refresh_grants w"
  by (simp add: refresh_grants_def)

lemma resume_step:
  assumes tok: "present (storage w ''refresh_token'')"
    and idp: "\<forall>log rt tr data. net log (refresh_request rt) = Some tr \<and> ok tr \<and> json_body tr = Some data
                \<longrightarrow> to_string (field data ''refresh_token'') \<noteq> []"
    and inv: "\<forall>u opts hdrs tr data. c = AwaitRefresh u opts hdrs (Some tr) \<and> ok tr \<and> json_body tr = Some data
                \<longrightarrow> to_string (field data ''refresh_token'') \<noteq> []"
  shows "present (storage (snd (request_resume pf net c w)) ''refresh_token'')"
    and "refresh_grants (snd (request_resume pf net c w))
           = refresh_grants w + (if renewal_due c then 1 else 0)"
    and "\<not> renewal_due (fst (request_resume pf net c w))"
    and "\<forall>u opts hdrs tr data. fst (request_resume pf net c w) = AwaitRefresh u opts hdrs (Some tr)
             \<and> ok tr \<and> json_body tr = Some data
           \<longrightarrow> to_string (field data ''refresh_token'') \<noteq> []"
proof -
  obtain rt where rt: "storage w ''refresh_token'' = Some rt" "rt \<noteq> []"
    using tok by (cases "storage w ''refresh_token''") auto
  show "present (storage (snd (request_resume pf net c w)) ''refresh_token'')"
    using tok rt inv
    by (cases c)
       (auto simp: fetch_def unauthorized_def Let_def
          dest!: store_refreshed_refresh_token
          split: option.splits sum.splits prod.splits)
  show "refresh_grants (snd (request_resume pf net c w))
           = refresh_grants w + (if renewal_due c then 1 else 0)"
    using rt
    by (cases c)
       (auto simp: fetch_def unauthorized_def Let_def refresh_grants_def
          dest!: store_refreshed_refresh_token
          split: option.splits sum.splits prod.splits)
  show "\<not> renewal_due (fst (request_resume pf net c w))"
    by (cases c)
       (auto simp: fetch_def unauthorized_def Let_def
          split: option.splits sum.splits prod.splits)
  show "\<forall>u opts hdrs tr data. fst (request_resume pf net c w) = AwaitRefresh u opts hdrs (Some tr)
             \<and> ok tr \<and> json_body tr = Some data
           \<longrightarrow> to_string (field data ''refresh_token'') \<noteq> []"
    using idp rt
    by (cases c)
       (auto simp: fetch_def unauthorized_def Let_def
          split: option.splits sum.splits prod.splits)
qed


lemma pool_refresh_count:
  assumes idp: "\<forall>log rt tr data. net log (refresh_request rt) = Some tr \<and> ok tr \<and> json_body tr = Some data
                \<longrightarrow> to_string (field data ''refresh_token'') \<noteq> []"
  shows "present (storage w ''refresh_token'') \<Longrightarrow>
         (\<forall>c\<in>set cs. \<forall>u opts hdrs tr data. c = AwaitRefresh u opts hdrs (Some tr) \<and> ok tr
              \<and> json_body tr = Some data \<longrightarrow> to_string (field data ''refresh_token'') \<noteq> []) \<Longrightarrow>
         (\<forall>i\<in>set sched. i < length cs) \<Longrightarrow>
         refresh_grants (snd (run_schedule pf net sched (cs, w)))
           = refresh_grants w + card {i \<in> set sched. renewal_due (cs ! i)}"
proof (induction sched arbitrary: cs w)
  case Nil
  then show ?case by simp
next
  case (Cons i sched)
  let ?c = "fst (request_resume pf net (cs ! i) w)"
  let ?w = "snd (request_resume pf net (cs ! i) w)"
  let ?cs = "cs[i := ?c]"
  have i: "i < length cs"
    using Cons.prems(3) by simp
  then have mem: "cs ! i \<in> set cs"
    by simp
  have inv: "\<forall>u opts hdrs tr data. cs ! i = AwaitRefresh u opts hdrs (Some tr) \<and> ok tr
               \<and> json_body tr = Some data \<longrightarrow> to_string (field data ''refresh_token'') \<noteq> []"
    using Cons.prems(2) mem by blast
  note step = resume_step[where net = net and pf = pf and c = "cs ! i" and w = w,
      OF Cons.prems(1) idp inv]
  have inv': "\<forall>c\<in>set ?cs. \<forall>u opts hdrs tr data. c = AwaitRefresh u opts hdrs (Some tr) \<and> ok tr
               \<and> json_body tr = Some data \<longrightarrow> to_string (field data ''refresh_token'') \<noteq> []"
  proof
    fix c assume "c \<in> set ?cs"
    with set_update_subset_insert[of cs i ?c] have "c \<in> insert ?c (set cs)"
      by (rule subsetD)
    then have "c = ?c \<or> c \<in> set cs"
      by (simp only: insert_iff)
    then show "\<forall>u opts hdrs tr data. c = AwaitRefresh u opts hdrs (Some tr) \<and> ok tr
               \<and> json_body tr = Some data \<longrightarrow> to_string (field data ''refresh_token'') \<noteq> []"
    proof
      assume "c = ?c"
      with step(4) show ?thesis
        by (simp only:)
    next
      assume "c \<in> set cs"
      with Cons.prems(2) show ?thesis
        by (rule bspec)
    qed
  qed
  have idx: "\<forall>j\<in>set sched. j < length ?cs"
    using Cons.prems(3) by simp
  have later: "{j \<in> set sched. renewal_due (?cs ! j)} = {j \<in> set sched. renewal_due (cs ! j)} - {i}"
    using i step(3) by (auto simp: nth_list_update)
  have IH: "refresh_grants (snd (run_schedule pf net sched (?cs, ?w)))
              = refresh_grants ?w + card {j \<in> set sched. renewal_due (?cs ! j)}"
    using Cons.IH[OF step(1) inv' idx] .
  have run: "run_schedule pf net (i # sched) (cs, w) = run_schedule pf net sched (?cs, ?w)"
    using i by (simp add: split_def Let_def)
  have fin: "finite {j \<in> set sched. renewal_due (cs ! j)}"
    by simp
  show ?case
  proof (cases "renewal_due (cs ! i)")
    case True
    then have "{j \<in> set (i # sched). renewal_due (cs ! j)}
                 = insert i ({j \<in> set sched. renewal_due (cs ! j)} - {i})"
      by auto
    then have "card {j \<in> set (i # sched). renewal_due (cs ! j)}
                 = card (insert i ({j \<in> set sched. renewal_due (cs ! j)} - {i}))"
      by (simp only:)
    also have "\<dots> = Suc (card ({j \<in> set sched. renewal_due (cs ! j)} - {i}))"
      by (rule card_insert_disjoint) (use fin in auto)
    finally have "card {j \<in> set (i # sched). renewal_due (cs ! j)}
                 = Suc (card ({j \<in> set sched. renewal_due (cs ! j)} - {i}))" .
    then show ?thesis
      using run IH later step(2) True by simp
  next
    case False
    then have "{j \<in> set (i # sched). renewal_due (cs ! j)} = {j \<in> set sched. renewal_due (cs ! j)}"
      and "{j \<in> set sched. renewal_due (cs ! j)} - {i} = {j \<in> set sched. renewal_due (cs ! j)}"
      by auto
    then show ?thesis
      using run IH later step(2) False by simp
  qed
qed

text \<open>
  C3, as the code has it. The gateway keeps no renewal in flight for others to wait for.
  Take N calls whose requests were all answered 401, a stored refresh credential, and an
  identity provider that never hands out an empty one. However the event loop resumes
  them, in any order and as often as it likes, every call that gets to resume sends a
  refresh grant of its own and sends it once: the grants sent are as many as the calls
  resumed, and N once every call has been resumed.
\<close>

theorem every_call_sends_its_own_refresh:
  "present (storage w ''refresh_token'') \<Longrightarrow>
   (\<forall>log rt tr data. net log (refresh_request rt) = Some tr \<and> ok tr \<and> json_body tr = Some data
       \<longrightarrow> to_string (field data ''refresh_token'') \<noteq> []) \<Longrightarrow>
   (\<forall>c\<in>set cs. renewal_due c) \<Longrightarrow>
   (\<forall>i\<in>set sched. i < length cs) \<Longrightarrow>
   refresh_grants (snd (run_schedule pf net sched (cs, w))) = refresh_grants w + card (set sched)
   \<and> (set sched = {..<length cs}
        \<longrightarrow> refresh_grants (snd (run_schedule pf net sched (cs, w))) = refresh_grants w + length cs)"
proof -
  assume tok: "present (storage w ''refresh_token'')"
    and idp: "\<forall>log rt tr data. net log (refresh_request rt) = Some tr \<and> ok tr \<and> json_body tr = Some data
       \<longrightarrow> to_string (field data ''refresh_token'') \<noteq> []"
    and due: "\<forall>c\<in>set cs. renewal_due c"
    and idx: "\<forall>i\<in>set sched. i < length cs"
  have inv: "\<forall>c\<in>set cs. \<forall>u opts hdrs tr data. c = AwaitRefresh u opts hdrs (Some tr) \<and> ok tr
              \<and> json_body tr = Some data \<longrightarrow> to_string (field data ''refresh_token'') \<noteq> []"
    using due by auto
  have "{i \<in> set sched. renewal_due (cs ! i)} = set sched"
    using due idx by auto
  then have n: "refresh_grants (snd (run_schedule pf net sched (cs, w)))
               = refresh_grants w + card (set sched)"
    using pool_refresh_count[where net = net and pf = pf and w = w and cs = cs and sched = sched,
      OF idp tok inv idx] by simp
  then show ?thesis
    by auto
qed


text \<open>
  The two calls of the sample, run one after the other to their ends, and run in turn.
  \<open>rotating_net\<close> grants the refresh credential \<^verbatim>\<open>r2\<close> or refuses.
\<close>

theorem every_call_sends_its_own_refresh_witness:
  "present (storage (snd two_calls) ''refresh_token'')
   \<and> length (fst two_calls) = 2
   \<and> renewal_due (fst two_calls ! 0)
   \<and> renewal_due (fst two_calls ! 1)
   \<and> set [0, 0, 0, 1, 1, 1 :: nat] = {..<length (fst two_calls)}
   \<and> refresh_grants (snd two_calls) = 0
   \<and> refresh_grants (snd (run_schedule ascii_platform rotating_net [0, 0, 0, 1, 1, 1] two_calls)) = 2
   \<and> refresh_grants (snd (run_schedule ascii_platform rotating_net [1, 0, 1, 0, 0, 1] two_calls)) = 2
   \<and> refresh_grants (snd (run_schedule ascii_platform rotating_net [1, 1] two_calls)) = 1"
proof -
  have tok: "present (storage (snd two_calls) ''refresh_token'')"
    by code_simp
  have l: "length (fst two_calls) = 2"
    by code_simp
  have d: "renewal_due (fst two_calls ! 0)" "renewal_due (fst two_calls ! 1)"
    by code_simp+
  have "c = fst two_calls ! 0 \<or> c = fst two_calls ! 1" if "c \<in> set (fst two_calls)" for c
  proof -
    from that obtain i where "i < 2" "c = fst two_calls ! i"
      using l by (metis in_set_conv_nth)
    then show ?thesis
      by (cases i) auto
  qed
  then have due: "\<forall>c\<in>set (fst two_calls). renewal_due c"
    using d by blast
  have idp: "\<forall>log rt tr data. rotating_net log (refresh_request rt) = Some tr \<and> ok tr
               \<and> json_body tr = Some data \<longrightarrow> to_string (field data ''refresh_token'') \<noteq> []"
    by (auto simp: rotating_net_def refresh_request_def invalid_grant_def renewed_tokens_def ok_def
             split: if_splits)
  have g0: "refresh_grants (snd two_calls) = 0"
    by code_simp
  have s: "set [0, 0, 0, 1, 1, 1 :: nat] = {..<length (fst two_calls)}"
    unfolding l by auto
  have T: "refresh_grants (snd (run_schedule ascii_platform rotating_net sched two_calls))
             = card (set sched)"
    if "\<forall>i\<in>set sched. i < 2" for sched
  proof -
    have "\<forall>i\<in>set sched. i < length (fst two_calls)"
      using that l by simp
    with every_call_sends_its_own_refresh
           [where w = "snd two_calls" and cs = "fst two_calls" and net = rotating_net
              and pf = ascii_platform and sched = sched]
      tok idp due
    have "refresh_grants (snd (run_schedule ascii_platform rotating_net sched
                                 (fst two_calls, snd two_calls)))
            = refresh_grants (snd two_calls) + card (set sched)"
      by blast
    then show ?thesis
      unfolding prod.collapse g0 by (simp only: add_0)
  qed
  have "set [0, 0, 0, 1, 1, 1 :: nat] = {0, 1}" "set [1, 0, 1, 0, 0, 1 :: nat] = {0, 1}"
    "set [1, 1 :: nat] = {1}"
    by auto
  then have c: "card (set [0, 0, 0, 1, 1, 1 :: nat]) = 2" "card (set [1, 0, 1, 0, 0, 1 :: nat]) = 2"
    "card (set [1, 1 :: nat]) = 1"
    by (simp_all only: card.empty card_insert_if finite.intros) simp_all
  have 1: "refresh_grants (snd (run_schedule ascii_platform rotating_net [0, 0, 0, 1, 1, 1] two_calls)) = 2"
    using T[of "[0, 0, 0, 1, 1, 1]"] unfolding c by simp
  have 2: "refresh_grants (snd (run_schedule ascii_platform rotating_net [1, 0, 1, 0, 0, 1] two_calls)) = 2"
    using T[of "[1, 0, 1, 0, 0, 1]"] unfolding c by simp
  have 3: "refresh_grants (snd (run_schedule ascii_platform rotating_net [1, 1] two_calls)) = 1"
    using T[of "[1, 1]"] unfolding c by simp
  show ?thesis
    by (intro conjI) (rule tok l d s g0 1 2 3)+
qed


section \<open>The invitation handshake\<close>

lemma state_token_undecodable:
  "\<not> present st \<or> (\<exists>s. st = Some s \<and> (atob pf s = None \<or> (\<exists>d. atob pf s = Some d \<and> JSON_parse pf d = None)))
   \<Longrightarrow> state_invitation_token pf st = JNull"
  by (cases st) (auto simp: state_invitation_token_def)

lemma store_session_done:
  "\<not> nullish data \<Longrightarrow>
   (\<exists>msg. fst (store_session pf data w) = CallbackDone msg)
   \<and> storage (snd (store_session pf data w)) ''access_token'' = Some (to_string (field data ''access_token''))
   \<and> sent (snd (store_session pf data w)) = sent w"
  by (simp add: store_session_def get_prop_def setItem_def Let_def)

lemma store_session_tenant:
  "storage (snd (store_session pf data w)) ''current_tenant'' =
     (if \<not> nullish data \<and> truthy (opt_prop (field data ''user'') ''tenant'')
      then Some (JSON_stringify pf (JObj [(''slug'', opt_prop (field data ''user'') ''tenant''),
                                          (''name'', opt_prop (field data ''user'') ''tenant'')]))
      else storage w ''current_tenant'')"
  by (simp add: store_session_def get_prop_def setItem_def Let_def)

lemma handleCallback_run:
  "\<not> present (p_error ps) \<Longrightarrow> p_code ps = Some c \<Longrightarrow> c \<noteq> [] \<Longrightarrow>
   sent (snd (handleCallback pf net ps w))
     = sent w @ [(Callback, callback_request pf c (state_invitation_token pf (p_state ps)))]"
  by (auto simp: handleCallback_def fetch_def Let_def store_session_def get_prop_def setItem_def
      split: option.splits sum.splits)

lemma handleCallback_ok:
  "\<not> present (p_error ps) \<Longrightarrow> p_code ps = Some c \<Longrightarrow> c \<noteq> [] \<Longrightarrow>
   net (sent w) (callback_request pf c (state_invitation_token pf (p_state ps))) = Some r \<Longrightarrow>
   ok r \<Longrightarrow> json_body r = Some data \<Longrightarrow>
   handleCallback pf net ps w
     = store_session pf data
         (w\<lparr>sent := sent w @ [(Callback, callback_request pf c (state_invitation_token pf (p_state ps)))]\<rparr>)"
  by (simp add: handleCallback_def fetch_def)

lemma handleCallback_state_only_through_token:
  "state_invitation_token pf (p_state ps) = state_invitation_token pf st \<Longrightarrow>
   handleCallback pf net ps w = handleCallback pf net (ps\<lparr>p_state := st\<rparr>) w"
  by (simp add: handleCallback_def Let_def split: option.split)

text \<open>
  C10. A callback with an authorization code and no error, whose \<^verbatim>\<open>state\<close> is
  missing, is not base64 or is not JSON, is handled as the callback without any
  \<^verbatim>\<open>state\<close> is: no invitation token is read, the one request sent exchanges the
  code at \<^verbatim>\<open>/api/v1/auth/sso/callback?code=...\<close> with no
  \<^verbatim>\<open>invitation_token\<close> parameter, and when the backend answers with a session the
  credential is stored and the page ends in its welcome.
\<close>

theorem undecodable_state_is_a_plain_login:
  "\<not> present (p_error ps) \<Longrightarrow> p_code ps = Some c \<Longrightarrow> c \<noteq> [] \<Longrightarrow>
   \<not> present (p_state ps)
     \<or> (\<exists>s. p_state ps = Some s
             \<and> (atob pf s = None \<or> (\<exists>d. atob pf s = Some d \<and> JSON_parse pf d = None))) \<Longrightarrow>
   state_invitation_token pf (p_state ps) = JNull
   \<and> handleCallback pf net ps w = handleCallback pf net (ps\<lparr>p_state := None\<rparr>) w
   \<and> sent (snd (handleCallback pf net ps w)) = sent w @ [(Callback, callback_request pf c JNull)]
   \<and> url (callback_request pf c JNull) = ''/api/v1/auth/sso/callback?code='' @ encodeURIComponent pf c
   \<and> (\<forall>r data. net (sent w) (callback_request pf c JNull) = Some r \<and> ok r
                 \<and> json_body r = Some data \<and> \<not> nullish data
          \<longrightarrow> (\<exists>msg. fst (handleCallback pf net ps w) = CallbackDone msg)
              \<and> storage (snd (handleCallback pf net ps w)) ''access_token''
                  = Some (to_string (field data ''access_token'')))"
proof -
  assume e: "\<not> present (p_error ps)" and c: "p_code ps = Some c" "c \<noteq> []"
    and st: "\<not> present (p_state ps)
       \<or> (\<exists>s. p_state ps = Some s
             \<and> (atob pf s = None \<or> (\<exists>d. atob pf s = Some d \<and> JSON_parse pf d = None)))"
  have t: "state_invitation_token pf (p_state ps) = JNull"
    using st by (rule state_token_undecodable)
  have n: "state_invitation_token pf None = JNull"
    by (simp add: state_invitation_token_def)
  have same: "handleCallback pf net ps w = handleCallback pf net (ps\<lparr>p_state := None\<rparr>) w"
    using handleCallback_state_only_through_token[of pf ps None net w] t n by simp
  have run: "sent (snd (handleCallback pf net ps w)) = sent w @ [(Callback, callback_request pf c JNull)]"
    using handleCallback_run[OF e c, of pf net w] t by simp
  have u: "url (callback_request pf c JNull) = ''/api/v1/auth/sso/callback?code='' @ encodeURIComponent pf c"
    by (simp add: callback_request_def callbackUrl_def)
  have fin: "(\<exists>msg. fst (handleCallback pf net ps w) = CallbackDone msg)
              \<and> storage (snd (handleCallback pf net ps w)) ''access_token''
                  = Some (to_string (field data ''access_token''))"
    if "net (sent w) (callback_request pf c JNull) = Some r" "ok r" "json_body r = Some data"
       "\<not> nullish data" for r data
    using handleCallback_ok[OF e c, of net w pf r data] that t
      store_session_done[OF that(4), of pf "w\<lparr>sent := sent w @ [(Callback, callback_request pf c JNull)]\<rparr>"]
    by simp
  from t same run u fin show ?thesis by blast
qed

text \<open>A \<^verbatim>\<open>state\<close> that is not base64, and a backend that answers with a session.\<close>

theorem undecodable_state_is_a_plain_login_witness:
  "\<not> present (p_error (callback_with (Some ''%%%'')))
   \<and> p_code (callback_with (Some ''%%%'')) = Some ''abc''
   \<and> p_state (callback_with (Some ''%%%'')) = Some ''%%%''
   \<and> atob ascii_platform ''%%%'' = None
   \<and> backend_net (sso_answer token_acme ''acme'') (sent empty_world)
        (callback_request ascii_platform ''abc'' JNull)
       = Some \<lparr> status = 200, json_body = Some (sso_answer token_acme ''acme'') \<rparr>
   \<and> ok \<lparr> status = 200, json_body = Some (sso_answer token_acme ''acme'') \<rparr>
   \<and> \<not> nullish (sso_answer token_acme ''acme'')
   \<and> sent (snd (handleCallback ascii_platform (backend_net (sso_answer token_acme ''acme''))
                     (callback_with (Some ''%%%'')) empty_world))
       = sent empty_world @ [(Callback, callback_request ascii_platform ''abc'' JNull)]
   \<and> url (callback_request ascii_platform ''abc'' JNull) = ''/api/v1/auth/sso/callback?code=abc''
   \<and> (\<exists>msg. fst (handleCallback ascii_platform (backend_net (sso_answer token_acme ''acme''))
                        (callback_with (Some ''%%%'')) empty_world) = CallbackDone msg)
   \<and> storage (snd (handleCallback ascii_platform (backend_net (sso_answer token_acme ''acme''))
                        (callback_with (Some ''%%%'')) empty_world)) ''access_token''
       = Some token_acme"
proof -
  let ?ps = "callback_with (Some ''%%%'')"
  let ?data = "sso_answer token_acme ''acme''"
  let ?net = "backend_net ?data"
  let ?r = "\<lparr> status = 200, json_body = Some ?data \<rparr>"
  have h1: "\<not> present (p_error ?ps)" and h2: "p_code ?ps = Some ''abc''" and h3: "''abc'' \<noteq> []"
    and h4: "p_state ?ps = Some ''%%%''"
    by (simp_all add: callback_with_def)
  have h5: "atob ascii_platform ''%%%'' = None"
    by code_simp
  have h6: "\<not> present (p_state ?ps)
            \<or> (\<exists>s. p_state ?ps = Some s
                  \<and> (atob ascii_platform s = None
                       \<or> (\<exists>d. atob ascii_platform s = Some d \<and> JSON_parse ascii_platform d = None)))"
    using h4 h5 by blast
  have n: "?net (sent empty_world) (callback_request ascii_platform ''abc'' JNull) = Some ?r"
    by (simp add: backend_net_def)
  have k: "ok ?r" "json_body ?r = Some ?data" "\<not> nullish ?data"
    by (simp_all add: ok_def sso_answer_def)
  have a: "field ?data ''access_token'' = JStr token_acme"
    by (simp add: sso_answer_def)
  have e: "encodeURIComponent ascii_platform ''abc'' = ''abc''"
    by code_simp
  note T = undecodable_state_is_a_plain_login[OF h1 h2 h3 h6, of ?net empty_world]
  from T n k a e show ?thesis
    using h1 h2 h4 h5 by (auto simp del: present.simps)
qed


lemma handleSsoLogin_only_redirects:
  "storage (handleSsoLogin pf origin tok provider w) = storage w
   \<and> sent (handleSsoLogin pf origin tok provider w) = sent w"
  by (simp add: handleSsoLogin_def Let_def)

lemma store_session_outcome:
  "fst (store_session pf data w) = fst (store_session pf data w')"
  by (simp add: store_session_def Let_def split: sum.split)

lemma handleCallback_reads_no_memory:
  "fst (handleCallback pf net ps (w\<lparr>storage := st, href := h\<rparr>)) = fst (handleCallback pf net ps w)"
  by (simp add: handleCallback_def fetch_def Let_def store_session_outcome[of pf _ "_\<lparr>sent := _\<rparr>" "w\<lparr>sent := _\<rparr>"]
      split: option.split sum.split)

lemma state_token_read:
  "s \<noteq> [] \<Longrightarrow> atob pf s = Some d \<Longrightarrow> JSON_parse pf d = Some stateData \<Longrightarrow> \<not> nullish stateData \<Longrightarrow>
   state_invitation_token pf (Some s) = field stateData ''invitation_token''"
  by (simp add: state_invitation_token_def get_prop_def)

text \<open>
  C4, as the code has it. \<^verbatim>\<open>handleSsoLogin\<close> only sets the address of the redirect:
  it keeps no record of the \<^verbatim>\<open>state\<close> it sends. On return, \<^verbatim>\<open>handleCallback\<close>
  looks at nothing the browser holds, so its result is the same whatever was stored or
  sent before; it decodes whatever \<^verbatim>\<open>state\<close> arrives and forwards the invitation
  token found in it, with the authorization code, to the backend.
\<close>

theorem returned_state_is_forwarded_unchecked:
  "storage (handleSsoLogin pf origin tok provider w) = storage w
   \<and> sent (handleSsoLogin pf origin tok provider w) = sent w
   \<and> fst (handleCallback pf net ps (w\<lparr>storage := st, href := h\<rparr>)) = fst (handleCallback pf net ps w)
   \<and> (\<not> present (p_error ps) \<and> p_code ps = Some c \<and> c \<noteq> [] \<and> p_state ps = Some s \<and> s \<noteq> []
        \<and> atob pf s = Some d \<and> JSON_parse pf d = Some stateData \<and> \<not> nullish stateData
        \<and> truthy (field stateData ''invitation_token'')
      \<longrightarrow> sent (snd (handleCallback pf net ps w))
            = sent w @ [(Callback, callback_request pf c (field stateData ''invitation_token''))]
          \<and> url (callback_request pf c (field stateData ''invitation_token''))
            = ''/api/v1/auth/sso/callback?code='' @ encodeURIComponent pf c
                @ ''&invitation_token=''
                @ encodeURIComponent pf (to_string (field stateData ''invitation_token'')))"
  using handleSsoLogin_only_redirects[of pf origin tok provider w]
    handleCallback_reads_no_memory[where pf = pf and net = net and ps = ps and w = w and st = st and h = h]
    handleCallback_run[of ps c pf net w] state_token_read[of s pf d stateData]
  by (auto simp: callback_request_def callbackUrl_def simp del: present.simps)

text \<open>A callback whose \<^verbatim>\<open>state\<close> carries the invitation token \<^verbatim>\<open>inv-B\<close>.\<close>

theorem returned_state_is_forwarded_unchecked_witness:
  "\<not> present (p_error (callback_with (Some (sso_state ascii_platform ''inv-B'' app_origin))))
   \<and> p_code (callback_with (Some (sso_state ascii_platform ''inv-B'' app_origin))) = Some ''abc''
   \<and> atob ascii_platform (sso_state ascii_platform ''inv-B'' app_origin)
       = Some (ascii_JSON_stringify
                 (JObj [(''invitation_token'', JStr ''inv-B''), (''return_url'', JStr app_origin)]))
   \<and> JSON_parse ascii_platform
        (ascii_JSON_stringify
           (JObj [(''invitation_token'', JStr ''inv-B''), (''return_url'', JStr app_origin)]))
       = Some (JObj [(''invitation_token'', JStr ''inv-B''), (''return_url'', JStr app_origin)])
   \<and> truthy (field (JObj [(''invitation_token'', JStr ''inv-B''), (''return_url'', JStr app_origin)])
                ''invitation_token'')
   \<and> sent (snd (handleCallback ascii_platform open_net
                     (callback_with (Some (sso_state ascii_platform ''inv-B'' app_origin))) empty_world))
       = sent empty_world @ [(Callback, callback_request ascii_platform ''abc'' (JStr ''inv-B''))]
   \<and> url (callback_request ascii_platform ''abc'' (JStr ''inv-B''))
       = ''/api/v1/auth/sso/callback?code=abc&invitation_token=inv-B''"
proof -
  let ?s = "sso_state ascii_platform ''inv-B'' app_origin"
  let ?ps = "callback_with (Some ?s)"
  let ?sd = "JObj [(''invitation_token'', JStr ''inv-B''), (''return_url'', JStr app_origin)]"
  let ?d = "ascii_JSON_stringify ?sd"
  have h: "\<not> present (p_error ?ps)" "p_code ?ps = Some ''abc''" "''abc'' \<noteq> []" "p_state ?ps = Some ?s"
    by (simp_all add: callback_with_def)
  have s: "?s \<noteq> []"
    by code_simp
  have a: "atob ascii_platform ?s = Some ?d"
    by code_simp
  have j: "JSON_parse ascii_platform ?d = Some ?sd"
    by code_simp
  have t: "\<not> nullish ?sd" "truthy (field ?sd ''invitation_token'')"
          "field ?sd ''invitation_token'' = JStr ''inv-B''"
    by simp_all
  have u: "url (callback_request ascii_platform ''abc'' (JStr ''inv-B''))
             = ''/api/v1/auth/sso/callback?code=abc&invitation_token=inv-B''"
    by code_simp
  from returned_state_is_forwarded_unchecked[where pf = ascii_platform and w = empty_world
        and net = open_net and ps = ?ps and c = "''abc''" and s = ?s and d = ?d and stateData = ?sd]
    h s a j t
  have "sent (snd (handleCallback ascii_platform open_net ?ps empty_world))
          = sent empty_world @ [(Callback, callback_request ascii_platform ''abc'' (JStr ''inv-B''))]"
    by (simp del: present.simps)
  with h a j t u show ?thesis by blast
qed

text \<open>
  C4 as stated fails. The page sends the \<^verbatim>\<open>state\<close> of invitation \<^verbatim>\<open>inv-A\<close>; the
  callback arrives with another \<^verbatim>\<open>state\<close>, naming \<^verbatim>\<open>inv-B\<close>. It is not rejected:
  the code is exchanged with \<^verbatim>\<open>inv-B\<close> and the page ends in its welcome.
\<close>

theorem foreign_state_is_accepted:
  "sso_state ascii_platform ''inv-B'' app_origin \<noteq> sso_state ascii_platform ''inv-A'' app_origin
   \<and> href (handleSsoLogin ascii_platform app_origin ''inv-A'' JNull empty_world)
       = Some (''http://localhost:8080/realms/agentic/protocol/openid-connect/auth?''
               @ ''client_id=agentic-frontend&''
               @ ''redirect_uri=https%3A%2F%2Fapp.example%2Fauth%2Fcallback&''
               @ ''response_type=code&scope=openid%20email%20profile&''
               @ ''state='' @ sso_state ascii_platform ''inv-A'' app_origin)
   \<and> map (\<lambda>(s, rq). url rq)
        (sent (snd (handleCallback ascii_platform (backend_net (sso_answer token_acme ''acme''))
                      (callback_with (Some (sso_state ascii_platform ''inv-B'' app_origin)))
                      (handleSsoLogin ascii_platform app_origin ''inv-A'' JNull empty_world))))
       = [''/api/v1/auth/sso/callback?code=abc&invitation_token=inv-B'']
   \<and> fst (handleCallback ascii_platform (backend_net (sso_answer token_acme ''acme''))
            (callback_with (Some (sso_state ascii_platform ''inv-B'' app_origin)))
            (handleSsoLogin ascii_platform app_origin ''inv-A'' JNull empty_world))
       = CallbackDone (JStr ''Welcome! Your account has been activated.'')"
  by code_simp

text \<open>
  C5, as the code has it. When the backend answers the callback with a session, the page
  stores the credential, takes the tenant from the \<^verbatim>\<open>user.tenant\<close> field of the
  answer, and ends in its welcome. The tenant of the credential is not compared with the
  tenant of the invitation, which the callback page does not know.
\<close>

theorem handshake_completes_without_tenant_check:
  "\<not> present (p_error ps) \<Longrightarrow> p_code ps = Some c \<Longrightarrow> c \<noteq> [] \<Longrightarrow>
   net (sent w) (callback_request pf c (state_invitation_token pf (p_state ps))) = Some r \<Longrightarrow>
   ok r \<Longrightarrow> json_body r = Some data \<Longrightarrow> \<not> nullish data \<Longrightarrow>
   (\<exists>msg. fst (handleCallback pf net ps w) = CallbackDone msg)
   \<and> storage (snd (handleCallback pf net ps w)) ''access_token''
       = Some (to_string (field data ''access_token''))
   \<and> storage (snd (handleCallback pf net ps w)) ''current_tenant''
       = (if truthy (opt_prop (field data ''user'') ''tenant'')
          then Some (JSON_stringify pf (JObj [(''slug'', opt_prop (field data ''user'') ''tenant''),
                                              (''name'', opt_prop (field data ''user'') ''tenant'')]))
          else storage w ''current_tenant'')"
proof -
  assume e: "\<not> present (p_error ps)" and c: "p_code ps = Some c" "c \<noteq> []"
    and n: "net (sent w) (callback_request pf c (state_invitation_token pf (p_state ps))) = Some r"
    and r: "ok r" "json_body r = Some data" and d: "\<not> nullish data"
  let ?w = "w\<lparr>sent := sent w @ [(Callback, callback_request pf c (state_invitation_token pf (p_state ps)))]\<rparr>"
  have "handleCallback pf net ps w = store_session pf data ?w"
    using handleCallback_ok[where ps = ps and c = c and net = net and w = w and pf = pf
        and r = r and data = data] e c n r by blast
  then show ?thesis
    using store_session_done[OF d, of pf ?w] store_session_tenant[of pf data ?w] d by simp
qed

text \<open>The invitation \<^verbatim>\<open>inv-A\<close> and a backend that answers with a credential of tenant
  \<^verbatim>\<open>globex\<close>.\<close>

theorem handshake_completes_without_tenant_check_witness:
  "\<not> present (p_error (callback_with (Some (sso_state ascii_platform ''inv-A'' app_origin))))
   \<and> p_code (callback_with (Some (sso_state ascii_platform ''inv-A'' app_origin))) = Some ''abc''
   \<and> backend_net (sso_answer token_globex ''globex'') (sent empty_world)
        (callback_request ascii_platform ''abc''
           (state_invitation_token ascii_platform
              (p_state (callback_with (Some (sso_state ascii_platform ''inv-A'' app_origin))))))
       = Some \<lparr> status = 200, json_body = Some (sso_answer token_globex ''globex'') \<rparr>
   \<and> ok \<lparr> status = 200, json_body = Some (sso_answer token_globex ''globex'') \<rparr>
   \<and> \<not> nullish (sso_answer token_globex ''globex'')
   \<and> (\<exists>msg. fst (handleCallback ascii_platform (backend_net (sso_answer token_globex ''globex''))
                   (callback_with (Some (sso_state ascii_platform ''inv-A'' app_origin))) empty_world)
              = CallbackDone msg)
   \<and> storage (snd (handleCallback ascii_platform (backend_net (sso_answer token_globex ''globex''))
                     (callback_with (Some (sso_state ascii_platform ''inv-A'' app_origin))) empty_world))
        ''access_token'' = Some token_globex
   \<and> storage (snd (handleCallback ascii_platform (backend_net (sso_answer token_globex ''globex''))
                     (callback_with (Some (sso_state ascii_platform ''inv-A'' app_origin))) empty_world))
        ''current_tenant''
       = Some (ascii_JSON_stringify (JObj [(''slug'', JStr ''globex''), (''name'', JStr ''globex'')]))"
proof -
  let ?ps = "callback_with (Some (sso_state ascii_platform ''inv-A'' app_origin))"
  let ?data = "sso_answer token_globex ''globex''"
  let ?r = "\<lparr> status = 200, json_body = Some ?data \<rparr>"
  have h: "\<not> present (p_error ?ps)" "p_code ?ps = Some ''abc''" "''abc'' \<noteq> []"
    by (simp_all add: callback_with_def)
  have n: "backend_net ?data (sent empty_world)
             (callback_request ascii_platform ''abc'' (state_invitation_token ascii_platform (p_state ?ps)))
           = Some ?r"
    by (simp add: backend_net_def)
  have k: "ok ?r" "json_body ?r = Some ?data" "\<not> nullish ?data"
    by (simp_all add: ok_def sso_answer_def)
  have f: "to_string (field ?data ''access_token'') = token_globex"
          "opt_prop (field ?data ''user'') ''tenant'' = JStr ''globex''"
          "JSON_stringify ascii_platform = ascii_JSON_stringify"
    by (simp_all add: sso_answer_def opt_prop_def ascii_platform_def)
  from handshake_completes_without_tenant_check[where ps = ?ps and c = "''abc''"
        and net = "backend_net ?data" and w = empty_world and pf = ascii_platform
        and r = ?r and data = ?data] h n k f
  have "(\<exists>msg. fst (handleCallback ascii_platform (backend_net ?data) ?ps empty_world) = CallbackDone msg)
        \<and> storage (snd (handleCallback ascii_platform (backend_net ?data) ?ps empty_world)) ''access_token''
            = Some token_globex
        \<and> storage (snd (handleCallback ascii_platform (backend_net ?data) ?ps empty_world)) ''current_tenant''
            = Some (ascii_JSON_stringify (JObj [(''slug'', JStr ''globex''), (''name'', JStr ''globex'')]))"
    by simp
  with h n k show ?thesis by blast
qed

text \<open>
  C5 as stated fails. The invitation is for tenant \<^verbatim>\<open>acme\<close>; the backend answers with
  a credential whose tenant claim is \<^verbatim>\<open>globex\<close>. The handshake does not end in
  failure: the credential is stored and the page ends in its welcome.
\<close>

theorem other_tenant_credential_is_accepted:
  \<open>field invitation_acme ''tenant_name'' = JStr ''acme''
   \<and> field (decodeTokenPayload ascii_platform (JStr token_globex)) ''tenant_slug'' = JStr ''globex''
   \<and> fst (handleCallback ascii_platform (backend_net (sso_answer token_globex ''globex''))
            (callback_with (Some (sso_state ascii_platform ''inv-A'' app_origin)))
            (handleSsoLogin ascii_platform app_origin ''inv-A'' JNull empty_world))
       = CallbackDone (JStr ''Welcome! Your account has been activated.'')
   \<and> storage (snd (handleCallback ascii_platform (backend_net (sso_answer token_globex ''globex''))
                     (callback_with (Some (sso_state ascii_platform ''inv-A'' app_origin)))
                     (handleSsoLogin ascii_platform app_origin ''inv-A'' JNull empty_world)))
        ''access_token'' = Some token_globex
   \<and> storage (snd (handleCallback ascii_platform (backend_net (sso_answer token_globex ''globex''))
                     (callback_with (Some (sso_state ascii_platform ''inv-A'' app_origin)))
                     (handleSsoLogin ascii_platform app_origin ''inv-A'' JNull empty_world)))
        ''current_tenant'' = Some ''{"slug":"globex","name":"globex"}''\<close>
  by code_simp

section \<open>Where the stored tenant comes from\<close>

lemma fetchUserProfile_begin_storage:
  "storage (fetchUserProfile_begin net accessToken w) = storage w"
  by (simp add: fetchUserProfile_begin_def fetch_def split: jsval.split)

lemma login_tenant:
  "net (sent w) (login_request email password) = Some r \<Longrightarrow> ok r \<Longrightarrow> json_body r = Some data \<Longrightarrow>
   get_prop data ''access_token'' = Inr t \<Longrightarrow>
   fst (login pf net email password w) = Success
   \<and> storage (snd (login pf net email password w)) ''current_tenant''
       = (if truthy (field (decodeTokenPayload_provider pf t) ''tenant'')
          then Some (JSON_stringify pf
                 (JObj [(''slug'', field (decodeTokenPayload_provider pf t) ''tenant''),
                        (''name'', field (decodeTokenPayload_provider pf t) ''tenant'')]))
          else storage w ''current_tenant'')"
  using decode_provider_shape[of pf t]
  by (auto simp: login_def login_try_def fetch_def Let_def setItem_def js_or_def
      fetchUserProfile_begin_storage)

lemma refresh_tenant:
  "storage w ''refresh_token'' = Some rt \<Longrightarrow> rt \<noteq> [] \<Longrightarrow>
   net (sent w) (refresh_request rt) = Some r \<Longrightarrow> ok r \<Longrightarrow> json_body r = Some data \<Longrightarrow>
   get_prop data ''access_token'' = Inr t \<Longrightarrow>
   fst (refreshAccessToken pf net w) = t
   \<and> storage (snd (refreshAccessToken pf net w)) ''current_tenant''
       = (if truthy (field (decodeTokenPayload_provider pf t) ''tenant'')
          then Some (JSON_stringify pf
                 (JObj [(''slug'', field (decodeTokenPayload_provider pf t) ''tenant''),
                        (''name'', field (decodeTokenPayload_provider pf t) ''tenant'')]))
          else storage w ''current_tenant'')"
  using decode_provider_shape[of pf t]
  by (auto simp: refreshAccessToken_def refresh_try_def fetch_def Let_def setItem_def)

lemma gateway_tenant:
  "get_prop data ''access_token'' = Inr t \<Longrightarrow>
   (\<exists>hdrs' w'. store_refreshed pf data hdrs w = Inr (hdrs', w')
      \<and> storage w' ''current_tenant''
          = (if truthy (opt_prop (decodeTokenPayload pf t) ''tenant_slug'')
             then Some (JSON_stringify pf
                    (JObj [(''slug'', opt_prop (decodeTokenPayload pf t) ''tenant_slug''),
                           (''name'', js_or (field (decodeTokenPayload pf t) ''tenant_name'')
                                        (opt_prop (decodeTokenPayload pf t) ''tenant_slug''))]))
             else storage w ''current_tenant''))"
  by (auto simp: store_refreshed_def Let_def setItem_def)

text \<open>The decoders' tenant field in terms of the claims of the credential.\<close>

lemma provider_tenant_of_claim:
  "token_payload pf t = Inr payload \<Longrightarrow> truthy (field payload ''tenant'') \<Longrightarrow>
   field (decodeTokenPayload_provider pf t) ''tenant'' = field payload ''tenant''"
  by (cases payload)
     (auto simp: decodeTokenPayload_provider_def provider_decode_try_def provider_user_def js_or_def)

lemma module_tenant_of_claim:
  "token_payload pf t = Inr payload \<Longrightarrow> \<not> nullish payload \<Longrightarrow>
   opt_prop (decodeTokenPayload pf t) ''tenant_slug'' = field payload ''tenant''
   \<and> field (decodeTokenPayload pf t) ''tenant_name'' = field payload ''tenant_name''"
  by (simp add: decodeTokenPayload_def module_decode_try_def module_user_def opt_prop_def)

lemma module_no_claim:
  "decodeTokenPayload pf t = JNull
     \<or> (\<exists>payload. token_payload pf t = Inr payload \<and> \<not> truthy (field payload ''tenant'')) \<Longrightarrow>
   \<not> truthy (opt_prop (decodeTokenPayload pf t) ''tenant_slug'')"
proof (erule disjE)
  assume "decodeTokenPayload pf t = JNull"
  then show ?thesis
    by (simp add: opt_prop_def)
next
  assume "\<exists>payload. token_payload pf t = Inr payload \<and> \<not> truthy (field payload ''tenant'')"
  then obtain payload where p: "token_payload pf t = Inr payload" "\<not> truthy (field payload ''tenant'')"
    by blast
  show ?thesis
  proof (cases "nullish payload")
    case True
    with p(1) have "decodeTokenPayload pf t = JNull"
      by (simp add: decodeTokenPayload_def module_decode_try_def module_user_def)
    then show ?thesis
      by (simp add: opt_prop_def)
  next
    case False
    with p show ?thesis
      using module_tenant_of_claim[of pf t payload] by simp
  qed
qed

lemma truthy_claim_object: "truthy (field payload k) \<Longrightarrow> \<not> nullish payload"
  by (cases payload) auto

lemma login_tenant_of_claim:
  assumes "net (sent w) (login_request email password) = Some r" "ok r" "json_body r = Some data"
    "get_prop data ''access_token'' = Inr t"
  shows "fst (login pf net email password w) = Success
   \<and> (\<forall>payload. token_payload pf t = Inr payload \<and> truthy (field payload ''tenant'')
        \<longrightarrow> storage (snd (login pf net email password w)) ''current_tenant''
              = Some (JSON_stringify pf (JObj [(''slug'', field payload ''tenant''),
                                               (''name'', field payload ''tenant'')])))
   \<and> (decodeTokenPayload_provider pf t = JNull
        \<longrightarrow> storage (snd (login pf net email password w)) ''current_tenant''
              = storage w ''current_tenant'')
   \<and> storage (snd (login pf net email password w)) ''current_tenant''
       = (if truthy (field (decodeTokenPayload_provider pf t) ''tenant'')
          then Some (JSON_stringify pf
                 (JObj [(''slug'', field (decodeTokenPayload_provider pf t) ''tenant''),
                        (''name'', field (decodeTokenPayload_provider pf t) ''tenant'')]))
          else storage w ''current_tenant'')"
  using login_tenant[where net = net and w = w and pf = pf, OF assms]
    provider_tenant_of_claim[of pf t]
  by auto

lemma refresh_tenant_of_claim:
  assumes "storage w ''refresh_token'' = Some rt" "rt \<noteq> []"
    "net (sent w) (refresh_request rt) = Some r" "ok r" "json_body r = Some data"
    "get_prop data ''access_token'' = Inr t"
  shows "fst (refreshAccessToken pf net w) = t
   \<and> (\<forall>payload. token_payload pf t = Inr payload \<and> truthy (field payload ''tenant'')
        \<longrightarrow> storage (snd (refreshAccessToken pf net w)) ''current_tenant''
              = Some (JSON_stringify pf (JObj [(''slug'', field payload ''tenant''),
                                               (''name'', field payload ''tenant'')])))
   \<and> (decodeTokenPayload_provider pf t = JNull
        \<longrightarrow> storage (snd (refreshAccessToken pf net w)) ''current_tenant''
              = storage w ''current_tenant'')
   \<and> storage (snd (refreshAccessToken pf net w)) ''current_tenant''
       = (if truthy (field (decodeTokenPayload_provider pf t) ''tenant'')
          then Some (JSON_stringify pf
                 (JObj [(''slug'', field (decodeTokenPayload_provider pf t) ''tenant''),
                        (''name'', field (decodeTokenPayload_provider pf t) ''tenant'')]))
          else storage w ''current_tenant'')"
  using refresh_tenant[where net = net and w = w and pf = pf, OF assms]
    provider_tenant_of_claim[of pf t]
  by auto

lemma gateway_tenant_of_claim:
  assumes "get_prop data ''access_token'' = Inr t"
  shows "\<exists>hdrs' w'. store_refreshed pf data hdrs w = Inr (hdrs', w')
     \<and> (\<forall>payload. token_payload pf t = Inr payload \<and> truthy (field payload ''tenant'')
          \<longrightarrow> storage w' ''current_tenant''
                = Some (JSON_stringify pf
                     (JObj [(''slug'', field payload ''tenant''),
                            (''name'', js_or (field payload ''tenant_name'') (field payload ''tenant''))])))
     \<and> (decodeTokenPayload pf t = JNull
          \<or> (\<exists>payload. token_payload pf t = Inr payload \<and> \<not> truthy (field payload ''tenant''))
          \<longrightarrow> storage w' ''current_tenant'' = storage w ''current_tenant'')
     \<and> storage w' ''current_tenant''
          = (if truthy (opt_prop (decodeTokenPayload pf t) ''tenant_slug'')
             then Some (JSON_stringify pf
                    (JObj [(''slug'', opt_prop (decodeTokenPayload pf t) ''tenant_slug''),
                           (''name'', js_or (field (decodeTokenPayload pf t) ''tenant_name'')
                                        (opt_prop (decodeTokenPayload pf t) ''tenant_slug''))]))
             else storage w ''current_tenant'')"
proof -
  from gateway_tenant[OF assms, of pf hdrs w] obtain hdrs' w' where
    s: "store_refreshed pf data hdrs w = Inr (hdrs', w')"
    and e: "storage w' ''current_tenant''
          = (if truthy (opt_prop (decodeTokenPayload pf t) ''tenant_slug'')
             then Some (JSON_stringify pf
                    (JObj [(''slug'', opt_prop (decodeTokenPayload pf t) ''tenant_slug''),
                           (''name'', js_or (field (decodeTokenPayload pf t) ''tenant_name'')
                                        (opt_prop (decodeTokenPayload pf t) ''tenant_slug''))]))
             else storage w ''current_tenant'')"
    by blast
  have a: "storage w' ''current_tenant''
             = Some (JSON_stringify pf
                  (JObj [(''slug'', field payload ''tenant''),
                         (''name'', js_or (field payload ''tenant_name'') (field payload ''tenant''))]))"
    if "token_payload pf t = Inr payload \<and> truthy (field payload ''tenant'')" for payload
    using that e module_tenant_of_claim[of pf t payload] truthy_claim_object[of payload "''tenant''"]
    by simp
  have b: "storage w' ''current_tenant'' = storage w ''current_tenant''"
    if "decodeTokenPayload pf t = JNull
          \<or> (\<exists>payload. token_payload pf t = Inr payload \<and> \<not> truthy (field payload ''tenant''))"
    using module_no_claim[OF that] e by simp
  from s a b e show ?thesis
    by (intro exI[of _ hdrs'] exI[of _ w'] conjI allI impI)
qed


text \<open>
  C1, as the code has it. After a granted login and after a granted renewal, by
  \<^verbatim>\<open>refreshAccessToken\<close> or inside the gateway, the stored \<^verbatim>\<open>current_tenant\<close> comes
  from decoding the new access credential and from nothing else of the response: what
  is written is the tenant field of the decoder's result. When the credential decodes
  to claims with a truthy \<^verbatim>\<open>tenant\<close>, the binding written is that claim. When the
  credential cannot be decoded, the binding is left as it was; in the gateway it is left
  as it was also when the decoded claims hold no truthy \<^verbatim>\<open>tenant\<close>. The completion
  of the SSO callback does not decode the credential: it stores the tenant found in the
  \<^verbatim>\<open>user.tenant\<close> field of the backend's answer.
\<close>

theorem stored_tenant_sources:
  "(net (sent w) (login_request email password) = Some r \<and> ok r \<and> json_body r = Some data
      \<and> get_prop data ''access_token'' = Inr t
    \<longrightarrow> fst (login pf net email password w) = Success
        \<and> (\<forall>payload. token_payload pf t = Inr payload \<and> truthy (field payload ''tenant'')
             \<longrightarrow> storage (snd (login pf net email password w)) ''current_tenant''
                   = Some (JSON_stringify pf (JObj [(''slug'', field payload ''tenant''),
                                                    (''name'', field payload ''tenant'')])))
        \<and> (decodeTokenPayload_provider pf t = JNull
             \<longrightarrow> storage (snd (login pf net email password w)) ''current_tenant''
                   = storage w ''current_tenant'')
        \<and> storage (snd (login pf net email password w)) ''current_tenant''
            = (if truthy (field (decodeTokenPayload_provider pf t) ''tenant'')
               then Some (JSON_stringify pf
                      (JObj [(''slug'', field (decodeTokenPayload_provider pf t) ''tenant''),
                             (''name'', field (decodeTokenPayload_provider pf t) ''tenant'')]))
               else storage w ''current_tenant''))
   \<and> (storage w ''refresh_token'' = Some rt \<and> rt \<noteq> []
        \<and> net (sent w) (refresh_request rt) = Some r \<and> ok r \<and> json_body r = Some data
        \<and> get_prop data ''access_token'' = Inr t
      \<longrightarrow> fst (refreshAccessToken pf net w) = t
          \<and> (\<forall>payload. token_payload pf t = Inr payload \<and> truthy (field payload ''tenant'')
               \<longrightarrow> storage (snd (refreshAccessToken pf net w)) ''current_tenant''
                     = Some (JSON_stringify pf (JObj [(''slug'', field payload ''tenant''),
                                                      (''name'', field payload ''tenant'')])))
          \<and> (decodeTokenPayload_provider pf t = JNull
               \<longrightarrow> storage (snd (refreshAccessToken pf net w)) ''current_tenant''
                     = storage w ''current_tenant'')
          \<and> storage (snd (refreshAccessToken pf net w)) ''current_tenant''
              = (if truthy (field (decodeTokenPayload_provider pf t) ''tenant'')
                 then Some (JSON_stringify pf
                        (JObj [(''slug'', field (decodeTokenPayload_provider pf t) ''tenant''),
                               (''name'', field (decodeTokenPayload_provider pf t) ''tenant'')]))
                 else storage w ''current_tenant''))
   \<and> (get_prop data ''access_token'' = Inr t
      \<longrightarrow> (\<exists>hdrs' w'. store_refreshed pf data hdrs w = Inr (hdrs', w')
             \<and> (\<forall>payload. token_payload pf t = Inr payload \<and> truthy (field payload ''tenant'')
                  \<longrightarrow> storage w' ''current_tenant''
                        = Some (JSON_stringify pf
                             (JObj [(''slug'', field payload ''tenant''),
                                    (''name'', js_or (field payload ''tenant_name'')
                                                 (field payload ''tenant''))])))
             \<and> (decodeTokenPayload pf t = JNull
                  \<or> (\<exists>payload. token_payload pf t = Inr payload
                                \<and> \<not> truthy (field payload ''tenant''))
                  \<longrightarrow> storage w' ''current_tenant'' = storage w ''current_tenant'')
             \<and> storage w' ''current_tenant''
                 = (if truthy (opt_prop (decodeTokenPayload pf t) ''tenant_slug'')
                    then Some (JSON_stringify pf
                           (JObj [(''slug'', opt_prop (decodeTokenPayload pf t) ''tenant_slug''),
                                  (''name'', js_or (field (decodeTokenPayload pf t) ''tenant_name'')
                                               (opt_prop (decodeTokenPayload pf t) ''tenant_slug''))]))
                    else storage w ''current_tenant'')))
   \<and> storage (snd (store_session pf answer w)) ''current_tenant''
       = (if \<not> nullish answer \<and> truthy (opt_prop (field answer ''user'') ''tenant'')
          then Some (JSON_stringify pf (JObj [(''slug'', opt_prop (field answer ''user'') ''tenant''),
                                              (''name'', opt_prop (field answer ''user'') ''tenant'')]))
          else storage w ''current_tenant'')"
  apply (rule conjI)
   apply (rule impI, elim conjE, rule login_tenant_of_claim; assumption)
  apply (rule conjI)
   apply (rule impI, elim conjE, rule refresh_tenant_of_claim; assumption)
  apply (rule conjI)
   apply (rule impI, rule gateway_tenant_of_claim; assumption)
  apply (rule store_session_tenant)
  done

text \<open>
  A login, a renewal and the gateway's renewal step, each granted the credential of
  tenant \<^verbatim>\<open>acme\<close>; a login and a renewal granted a credential that cannot be decoded,
  and the gateway's step granted one without a tenant claim, in a browser already bound
  to \<^verbatim>\<open>acme\<close>.
\<close>

theorem stored_tenant_sources_witness:
  \<open>granting_net token_acme (sent session_world) (login_request ''alice'' ''secret'')
       = Some (token_response token_acme)
   \<and> storage session_world ''refresh_token'' = Some ''r1''
   \<and> granting_net token_acme (sent session_world) (refresh_request ''r1'')
       = Some (token_response token_acme)
   \<and> ok (token_response token_acme)
   \<and> get_prop (JObj [(''access_token'', JStr token_acme), (''refresh_token'', JStr ''r2'')])
        ''access_token'' = Inr (JStr token_acme)
   \<and> token_payload ascii_platform (JStr token_acme)
       = Inr (JObj [(''sub'', JStr ''u1''), (''tenant'', JStr ''acme'')])
   \<and> storage session_world ''current_tenant'' = None
   \<and> fst (login ascii_platform (granting_net token_acme) ''alice'' ''secret'' session_world) = Success
   \<and> storage (snd (login ascii_platform (granting_net token_acme) ''alice'' ''secret'' session_world))
        ''current_tenant'' = Some ''{"slug":"acme","name":"acme"}''
   \<and> fst (refreshAccessToken ascii_platform (granting_net token_acme) session_world) = JStr token_acme
   \<and> storage (snd (refreshAccessToken ascii_platform (granting_net token_acme) session_world))
        ''current_tenant'' = Some ''{"slug":"acme","name":"acme"}''
   \<and> (\<exists>hdrs' w'.
         store_refreshed ascii_platform
           (JObj [(''access_token'', JStr token_acme), (''refresh_token'', JStr ''r2'')]) [] session_world
           = Inr (hdrs', w')
         \<and> storage w' ''current_tenant'' = Some ''{"slug":"acme","name":"acme"}'')
   \<and> decodeTokenPayload_provider ascii_platform (JStr ''not-a-token'') = JNull
   \<and> storage bound_world ''current_tenant'' = Some ''{"slug":"acme","name":"acme"}''
   \<and> fst (login ascii_platform (granting_net ''not-a-token'') ''alice'' ''secret'' bound_world) = Success
   \<and> storage (snd (login ascii_platform (granting_net ''not-a-token'') ''alice'' ''secret'' bound_world))
        ''current_tenant'' = Some ''{"slug":"acme","name":"acme"}''
   \<and> fst (refreshAccessToken ascii_platform (granting_net ''not-a-token'') bound_world)
        = JStr ''not-a-token''
   \<and> storage (snd (refreshAccessToken ascii_platform (granting_net ''not-a-token'') bound_world))
        ''current_tenant'' = Some ''{"slug":"acme","name":"acme"}''
   \<and> token_payload ascii_platform (JStr token_no_tenant)
       = Inr (JObj [(''sub'', JStr ''u1''), (''preferred_username'', JStr ''alice'')])
   \<and> (\<exists>hdrs' w'.
         store_refreshed ascii_platform
           (JObj [(''access_token'', JStr token_no_tenant), (''refresh_token'', JStr ''r2'')]) [] bound_world
           = Inr (hdrs', w')
         \<and> storage w' ''current_tenant'' = Some ''{"slug":"acme","name":"acme"}'')\<close>
proof -
  let ?t = "JStr token_acme"
  let ?bad = "JStr ''not-a-token''"
  let ?bare = "JStr token_no_tenant"
  let ?data = "\<lambda>tok. JObj [(''access_token'', JStr tok), (''refresh_token'', JStr ''r2'')]"
  have n: "granting_net tok (sent w) rq = Some (token_response tok)" for tok w rq
    by (simp add: granting_net_def)
  have r: "ok (token_response tok)" "json_body (token_response tok) = Some (?data tok)" for tok
    by (simp_all add: token_response_def ok_def)
  have g: "get_prop (?data tok) ''access_token'' = Inr (JStr tok)" for tok
    by (simp add: get_prop_def)
  have w: "storage session_world ''refresh_token'' = Some ''r1''"
    "storage bound_world ''refresh_token'' = Some ''r1''" "''r1'' \<noteq> []"
    "storage session_world ''current_tenant'' = None"
    by (simp_all add: session_world_def bound_world_def setItem_def)
  have b: \<open>storage bound_world ''current_tenant'' = Some ''{"slug":"acme","name":"acme"}''\<close>
    by code_simp
  have p: "token_payload ascii_platform ?t = Inr (JObj [(''sub'', JStr ''u1''), (''tenant'', JStr ''acme'')])"
    by code_simp
  have q: "token_payload ascii_platform ?bare
             = Inr (JObj [(''sub'', JStr ''u1''), (''preferred_username'', JStr ''alice'')])"
    by code_simp
  have d: "decodeTokenPayload_provider ascii_platform ?bad = JNull"
    by code_simp
  have j: \<open>JSON_stringify ascii_platform (JObj [(''slug'', JStr ''acme''), (''name'', JStr ''acme'')])
            = ''{"slug":"acme","name":"acme"}''\<close>
    by code_simp
  note A = stored_tenant_sources[where pf = ascii_platform and net = "granting_net token_acme"
      and w = session_world and email = "''alice''" and password = "''secret''"
      and r = "token_response token_acme" and data = "?data token_acme" and t = ?t
      and rt = "''r1''" and hdrs = "[]" and answer = JNull]
  note B = stored_tenant_sources[where pf = ascii_platform and net = "granting_net ''not-a-token''"
      and w = bound_world and email = "''alice''" and password = "''secret''"
      and r = "token_response ''not-a-token''" and data = "?data ''not-a-token''" and t = ?bad
      and rt = "''r1''" and hdrs = "[]" and answer = JNull]
  note C = stored_tenant_sources[where pf = ascii_platform and net = "granting_net token_no_tenant"
      and w = bound_world and email = "''alice''" and password = "''secret''"
      and r = "token_response token_no_tenant" and data = "?data token_no_tenant" and t = ?bare
      and rt = "''r1''" and hdrs = "[]" and answer = JNull]
  have 1: \<open>fst (login ascii_platform (granting_net token_acme) ''alice'' ''secret'' session_world) = Success
        \<and> storage (snd (login ascii_platform (granting_net token_acme) ''alice'' ''secret'' session_world))
             ''current_tenant'' = Some ''{"slug":"acme","name":"acme"}''\<close>
    using A by (simp add: n r g p j js_or_def)
  have 2: \<open>fst (refreshAccessToken ascii_platform (granting_net token_acme) session_world) = ?t
        \<and> storage (snd (refreshAccessToken ascii_platform (granting_net token_acme) session_world))
             ''current_tenant'' = Some ''{"slug":"acme","name":"acme"}''\<close>
    using A by (simp add: n w r g p j js_or_def)
  have 3: \<open>\<exists>hdrs' w'. store_refreshed ascii_platform (?data token_acme) [] session_world = Inr (hdrs', w')
        \<and> storage w' ''current_tenant'' = Some ''{"slug":"acme","name":"acme"}''\<close>
    using A by (simp add: g p j js_or_def) (elim conjE exE, intro exI conjI, assumption+)
  have 4: \<open>fst (login ascii_platform (granting_net ''not-a-token'') ''alice'' ''secret'' bound_world) = Success
        \<and> storage (snd (login ascii_platform (granting_net ''not-a-token'') ''alice'' ''secret'' bound_world))
             ''current_tenant'' = Some ''{"slug":"acme","name":"acme"}''\<close>
    using B by (simp add: n r g d b)
  have 5: \<open>fst (refreshAccessToken ascii_platform (granting_net ''not-a-token'') bound_world) = ?bad
        \<and> storage (snd (refreshAccessToken ascii_platform (granting_net ''not-a-token'') bound_world))
             ''current_tenant'' = Some ''{"slug":"acme","name":"acme"}''\<close>
    using B by (simp add: n w r g d b)
  have 6: \<open>\<exists>hdrs' w'. store_refreshed ascii_platform (?data token_no_tenant) [] bound_world = Inr (hdrs', w')
        \<and> storage w' ''current_tenant'' = Some ''{"slug":"acme","name":"acme"}''\<close>
    using C by (simp add: g q b) (elim conjE exE, intro exI conjI, assumption+)
  show ?thesis
    apply (intro conjI)
    apply (rule n w r g p q d b 1[THEN conjunct1] 1[THEN conjunct2] 2[THEN conjunct1] 2[THEN conjunct2]
        3 4[THEN conjunct1] 4[THEN conjunct2] 5[THEN conjunct1] 5[THEN conjunct2] 6)+
    done
qed


text \<open>
  C1 as stated fails for the completion of the SSO callback. The backend answers with the
  credential of tenant \<^verbatim>\<open>acme\<close> and with \<^verbatim>\<open>user.tenant = "evil-corp"\<close>; the tenant
  stored is the one of the response body, not the one of the credential.
\<close>

theorem callback_stores_tenant_of_response_body:
  \<open>field (decodeTokenPayload ascii_platform (JStr token_acme)) ''tenant_slug'' = JStr ''acme''
   \<and> field (decodeTokenPayload_provider ascii_platform (JStr token_acme)) ''tenant'' = JStr ''acme''
   \<and> storage (snd (handleCallback ascii_platform (backend_net (sso_answer token_acme ''evil-corp''))
                     (callback_with None) empty_world)) ''access_token'' = Some token_acme
   \<and> storage (snd (handleCallback ascii_platform (backend_net (sso_answer token_acme ''evil-corp''))
                     (callback_with None) empty_world)) ''current_tenant''
       = Some ''{"slug":"evil-corp","name":"evil-corp"}''\<close>
  by code_simp

end
